theory Spec2Isabelle
  imports Main "HOL-Library.Word"
begin

section \<open>JavaScript strings and numbers\<close>

text \<open>
  A JavaScript string is a sequence of 16-bit code units. String literals of the source
  are written with \<open>js\<close>, which maps every character of an Isabelle string to the code
  unit of the same number.
\<close>

type_synonym jschar = "16 word"
type_synonym jsstring = "jschar list"

definition js :: "string \<Rightarrow> jsstring" where
  "js s = map (\<lambda>c. of_nat (of_char c)) s"

text \<open>
  The numbers of \<open>index.js\<close> that matter here are integers or \<open>NaN\<close>. \<open>Num n\<close> stands
  for the Number with the mathematical value \<open>n\<close>; JavaScript computes with IEEE doubles,
  which agree with the mathematical integers as long as the magnitude stays below
  \<open>2 ^ 53\<close>. \<open>-0\<close> and \<open>0\<close> are both \<open>Num 0\<close>: the source only applies \<open>String\<close>, \<open>===\<close>
  and \<open><=\<close> to them, which do not tell them apart.
\<close>

datatype jsnum = NaN | Num int

definition comma :: jschar where "comma = 0x2C"
definition colon :: jschar where "colon = 0x3A"
definition plus_sign :: jschar where "plus_sign = 0x2B"
definition minus_sign :: jschar where "minus_sign = 0x2D"

definition isDigit :: "jschar \<Rightarrow> bool" where
  "isDigit c = (0x30 \<le> c \<and> c \<le> 0x39)"

definition digitValue :: "jschar \<Rightarrow> int" where
  "digitValue c = uint c - 48"

text \<open>
  The characters that \<open>parseInt\<close> skips at the start of its argument (ECMAScript
  \<open>StrWhiteSpaceChar\<close>: white space and line terminators).
\<close>

definition isStrWhiteSpace :: "jschar \<Rightarrow> bool" where
  "isStrWhiteSpace c =
     (c \<in> set [0x09, 0x0A, 0x0B, 0x0C, 0x0D, 0x20, 0xA0, 0x1680,
               0x2000, 0x2001, 0x2002, 0x2003, 0x2004, 0x2005, 0x2006, 0x2007,
               0x2008, 0x2009, 0x200A, 0x2028, 0x2029, 0x202F, 0x205F, 0x3000, 0xFEFF])"

definition digitsValue :: "jsstring \<Rightarrow> int" where
  "digitsValue ds = foldl (\<lambda>acc d. 10 * acc + digitValue d) 0 ds"

text \<open>
  \<open>parseInt(string, 10)\<close>: skip leading white space, read an optional sign, then the
  longest run of decimal digits; \<open>NaN\<close> when that run is empty. Whatever follows the
  digits is dropped.
\<close>

definition parseInt :: "jsstring \<Rightarrow> jsnum" where
  "parseInt inputString =
     (let S = dropWhile isStrWhiteSpace inputString;
          sign = (case S of c # _ \<Rightarrow> if c = minus_sign then - 1 else 1 | [] \<Rightarrow> (1::int));
          S' = (case S of c # cs \<Rightarrow> if c = plus_sign \<or> c = minus_sign then cs else S | [] \<Rightarrow> S);
          Z = takeWhile isDigit S'
      in if Z = [] then NaN else Num (sign * digitsValue Z))"

text \<open>\<open>ToString\<close> of an argument that may be \<open>undefined\<close> (\<open>None\<close>).\<close>

definition ToString :: "jsstring option \<Rightarrow> jsstring" where
  "ToString v = (case v of None \<Rightarrow> js ''undefined'' | Some s \<Rightarrow> s)"

fun decimal :: "nat \<Rightarrow> jsstring" where
  "decimal n =
     (if n < 10 then [of_nat (48 + n)]
      else decimal (n div 10) @ [of_nat (48 + n mod 10)])"

declare decimal.simps [simp del]

text \<open>\<open>String(x)\<close> for the numbers above.\<close>

definition String_of :: "jsnum \<Rightarrow> jsstring" where
  "String_of x =
     (case x of
        NaN \<Rightarrow> js ''NaN''
      | Num n \<Rightarrow> if n < 0 then minus_sign # decimal (nat (- n)) else decimal (nat n))"

text \<open>
  \<open>s.split(sep)\<close> for a one-character separator: the pieces between the separators,
  at least one piece, empty pieces kept.
\<close>

fun split_on :: "jschar \<Rightarrow> jsstring \<Rightarrow> jsstring list" where
  "split_on sep [] = [[]]"
| "split_on sep (c # cs) =
     (if c = sep then [] # split_on sep cs
      else (case split_on sep cs of p # ps \<Rightarrow> (c # p) # ps | [] \<Rightarrow> [[c]]))"

text \<open>Reading an array element: \<open>undefined\<close> (\<open>None\<close>) past the end.\<close>

definition element :: "'a list \<Rightarrow> nat \<Rightarrow> 'a option" where
  "element xs i = (if i < length xs then Some (xs ! i) else None)"

section \<open>The limit parser\<close>

text \<open>
  The object \<open>parseLimits\<close> returns: its only possible properties are \<open>rps\<close>, \<open>rpm\<close>,
  \<open>rph\<close> and \<open>rpd\<close>, each absent (\<open>None\<close>) or a number that is not \<open>NaN\<close>.
\<close>

record limits =
  rps :: "int option"
  rpm :: "int option"
  rph :: "int option"
  rpd :: "int option"

definition noLimits :: limits where
  "noLimits = \<lparr>rps = None, rpm = None, rph = None, rpd = None\<rparr>"

definition unitKeys :: "jsstring list" where
  "unitKeys = [js ''rps'', js ''rpm'', js ''rph'', js ''rpd'']"

text \<open>\<open>limits[key] = parsedValue\<close> for a key that is one of \<open>unitKeys\<close>.\<close>

definition setLimit :: "jsstring \<Rightarrow> int \<Rightarrow> limits \<Rightarrow> limits" where
  "setLimit key v l =
     (if key = js ''rps'' then l\<lparr>rps := Some v\<rparr>
      else if key = js ''rpm'' then l\<lparr>rpm := Some v\<rparr>
      else if key = js ''rph'' then l\<lparr>rph := Some v\<rparr>
      else if key = js ''rpd'' then l\<lparr>rpd := Some v\<rparr>
      else l)"

text \<open>The body of the \<open>forEach\<close> callback, for one comma-separated part.\<close>

definition parsePart :: "limits \<Rightarrow> jsstring \<Rightarrow> limits" where
  "parsePart l part =
     (let fields = split_on colon part;
          key = element fields 0;
          value = element fields 1;
          parsedValue = parseInt (ToString value)
      in case (key, parsedValue) of
           (Some k, Num v) \<Rightarrow> if k \<in> set unitKeys then setLimit k v l else l
         | _ \<Rightarrow> l)"

text \<open>
  \<open>parseLimits(limitString)\<close>; the argument is an environment variable, a string or
  \<open>undefined\<close> (\<open>None\<close>).
\<close>

definition parseLimits :: "jsstring option \<Rightarrow> limits" where
  "parseLimits limitString =
     (case limitString of
        None \<Rightarrow> noLimits
      | Some s \<Rightarrow>
          if s = [] then noLimits
          else (case parseInt s of
                  Num plainNumber \<Rightarrow>
                    if String_of (Num plainNumber) = s then noLimits\<lparr>rps := Some plainNumber\<rparr>
                    else foldl parsePart noLimits (split_on comma s)
                | NaN \<Rightarrow> foldl parsePart noLimits (split_on comma s)))"

section \<open>Error responses\<close>

text \<open>
  The values a message or a query parameter can be: \<open>undefined\<close>, a string, a number, or
  any other object (an \<open>Error\<close>, an array, a nested query object), which carries the
  string that converting it to a string gives.
\<close>

datatype jsvalue = Undefined | Str jsstring | Number jsnum | Object jsstring

definition truthy :: "jsvalue \<Rightarrow> bool" where
  "truthy v =
     (case v of
        Undefined \<Rightarrow> False
      | Str s \<Rightarrow> s \<noteq> []
      | Number x \<Rightarrow> x \<noteq> NaN \<and> x \<noteq> Num 0
      | Object _ \<Rightarrow> True)"

text \<open>
  \<open>TextEncoder.encode\<close> first reads the string as Unicode scalar values: a surrogate pair
  is one code point, a surrogate without its partner becomes \<open>U+FFFD\<close>.
\<close>

fun toScalarValues :: "jsstring \<Rightarrow> nat list" where
  "toScalarValues [] = []"
| "toScalarValues [c] =
     (if 0xD800 \<le> unat c \<and> unat c < 0xE000 then [0xFFFD] else [unat c])"
| "toScalarValues (c # d # ds) =
     (if 0xD800 \<le> unat c \<and> unat c < 0xDC00 then
        (if 0xDC00 \<le> unat d \<and> unat d < 0xE000
         then (0x10000 + (unat c - 0xD800) * 0x400 + (unat d - 0xDC00)) # toScalarValues ds
         else 0xFFFD # toScalarValues (d # ds))
      else if 0xDC00 \<le> unat c \<and> unat c < 0xE000 then 0xFFFD # toScalarValues (d # ds)
      else unat c # toScalarValues (d # ds))"

text \<open>The UTF-8 bytes of one scalar value.\<close>

definition utf8Bytes :: "nat \<Rightarrow> 8 word list" where
  "utf8Bytes cp =
     (if cp < 0x80 then [of_nat cp]
      else if cp < 0x800 then [of_nat (0xC0 + cp div 0x40), of_nat (0x80 + cp mod 0x40)]
      else if cp < 0x10000 then
        [of_nat (0xE0 + cp div 0x1000), of_nat (0x80 + cp div 0x40 mod 0x40),
         of_nat (0x80 + cp mod 0x40)]
      else
        [of_nat (0xF0 + cp div 0x40000), of_nat (0x80 + cp div 0x1000 mod 0x40),
         of_nat (0x80 + cp div 0x40 mod 0x40), of_nat (0x80 + cp mod 0x40)])"

definition encode :: "jsstring \<Rightarrow> 8 word list" where
  "encode str = concat (map utf8Bytes (toScalarValues str))"

text \<open>\<open>utf8ToAscii\<close>: every UTF-8 byte becomes the character with that code.\<close>

definition fromCharCode :: "8 word \<Rightarrow> jschar" where
  "fromCharCode v = ucast v"

definition utf8ToAscii :: "jsstring \<Rightarrow> jsstring" where
  "utf8ToAscii str = map fromCharCode (encode str)"

definition CR :: jschar where "CR = 0x0D"
definition LF :: jschar where "LF = 0x0A"

text \<open>
  \<open>.replace(/\r?\n|\r/g, '')\<close>: scanning from the left, a carriage return followed by a
  line feed, a line feed, or a carriage return is removed.
\<close>

fun removeNewlines :: "jsstring \<Rightarrow> jsstring" where
  "removeNewlines [] = []"
| "removeNewlines [c] = (if c = LF \<or> c = CR then [] else [c])"
| "removeNewlines (c # d # ds) =
     (if c = CR \<and> d = LF then removeNewlines ds
      else if c = LF then removeNewlines (d # ds)
      else if c = CR then removeNewlines (d # ds)
      else c # removeNewlines (d # ds))"

definition sanitizeErrorHeader :: "jsvalue \<Rightarrow> jsstring" where
  "sanitizeErrorHeader msg =
     (case msg of Str s \<Rightarrow> removeNewlines (utf8ToAscii s) | _ \<Rightarrow> [])"

text \<open>
  A response as the handlers write it: the status code, the \<open>Content-Type\<close>, the
  \<open>X-quickchart-error\<close> header when it is set, and the body. The model takes
  \<open>res.writeHead\<close> to succeed; Node refuses a header value that holds a control
  character other than a tab, which the sanitizer removes only when it is a carriage
  return or a line feed. The fixed messages of \<open>index.js\<close> hold no such character.
\<close>

datatype body =
    ErrorPng jsvalue
  | ErrorSvg jsvalue
  | ErrorPdf jsvalue
  | Rendered "8 word list"
  | PlainText jsstring
  | ConfigText jsvalue

record response =
  status :: nat
  contentType :: "string option"
  errorHeader :: "jsstring option"
  body :: body

definition failPng :: "jsvalue \<Rightarrow> nat \<Rightarrow> response" where
  "failPng msg statusCode =
     \<lparr>status = statusCode, contentType = Some ''image/png'',
      errorHeader = Some (sanitizeErrorHeader msg), body = ErrorPng msg\<rparr>"

definition failSvg :: "jsvalue \<Rightarrow> nat \<Rightarrow> response" where
  "failSvg msg statusCode =
     \<lparr>status = statusCode, contentType = Some ''image/svg+xml'',
      errorHeader = Some (sanitizeErrorHeader msg), body = ErrorSvg msg\<rparr>"

section \<open>Authentication and rate limiting\<close>

text \<open>
  \<open>apiKeys\<close> maps a credential to its limits. \<open>requestCounts\<close> maps a credential to its
  \<open>counts\<close> object, whose properties \<open>ts_s\<close>, \<open>count_s\<close>, \<open>ts_m\<close>, ... hold numbers.
  Both are read with a string that is a key of \<open>apiKeys\<close>. \<open>requestCounts\<close> and the
  \<open>counts\<close> objects are plain objects used as dictionaries; the maps of this section are
  what one request reads and writes of them. The prototype that these objects share, and
  what the key \<open>__proto__\<close> does to it, is the subject of the section after this one.
\<close>

type_synonym counts = "string \<rightharpoonup> jsnum"
type_synonym requestCounts = "jsstring \<rightharpoonup> counts"
type_synonym apiKeys = "jsstring \<rightharpoonup> limits"

text \<open>What the middleware reads of a request.\<close>

record request =
  authorization :: "jsstring option"
  queryKey :: jsvalue

definition startsWith :: "jsstring \<Rightarrow> jsstring \<Rightarrow> bool" where
  "startsWith s p = (take (length p) s = p)"

text \<open>Step 1 of the middleware: the key of the request.\<close>

definition requestKey :: "request \<Rightarrow> jsvalue" where
  "requestKey req =
     (case authorization req of
        Some authHeader \<Rightarrow>
          if authHeader \<noteq> [] \<and> startsWith authHeader (js ''Bearer '') then Str (drop 7 authHeader)
          else if truthy (queryKey req) then queryKey req
          else Str (js ''_anonymous_'')
      | None \<Rightarrow>
          if truthy (queryKey req) then queryKey req else Str (js ''_anonymous_''))"

text \<open>\<open>apiKeys.has(key)\<close> and \<open>apiKeys.get(key)\<close>: only a string can be a key of the map.\<close>

definition getLimits :: "apiKeys \<Rightarrow> jsvalue \<Rightarrow> (jsstring \<times> limits) option" where
  "getLimits keys key =
     (case key of
        Str k \<Rightarrow> (case keys k of Some l \<Rightarrow> Some (k, l) | None \<Rightarrow> None)
      | _ \<Rightarrow> None)"

text \<open>\<open>x += 1\<close> on a property that may be missing, and \<open>x <= limit\<close>.\<close>

definition increment :: "jsnum option \<Rightarrow> jsnum" where
  "increment x = (case x of Some (Num c) \<Rightarrow> Num (c + 1) | _ \<Rightarrow> NaN)"

definition withinLimit :: "jsnum option \<Rightarrow> int \<Rightarrow> bool" where
  "withinLimit x limit = (case x of Some (Num c) \<Rightarrow> c \<le> limit | _ \<Rightarrow> False)"

text \<open>
  The closure \<open>check\<close>: it returns whether the window passes, together with the \<open>counts\<close>
  object as it leaves it.
\<close>

definition check :: "int option \<Rightarrow> string \<Rightarrow> int \<Rightarrow> counts \<Rightarrow> bool \<times> counts" where
  "check limit unit timestamp counts =
     (case limit of
        None \<Rightarrow> (True, counts)
      | Some l \<Rightarrow>
          if l = 0 then (False, counts)
          else
            (let countKey = ''count_'' @ unit;
                 tsKey = ''ts_'' @ unit;
                 counts' =
                   (if counts tsKey \<noteq> Some (Num timestamp)
                    then (counts(tsKey \<mapsto> Num timestamp))(countKey \<mapsto> Num 1)
                    else counts(countKey \<mapsto> increment (counts countKey)))
             in (withinLimit (counts' countKey) l, counts')))"

text \<open>
  The condition of step 3: the four checks joined by \<open>||\<close>, so a check runs only when
  every check before it has passed. The result is \<open>True\<close> when all of them pass.
\<close>

definition checkAll ::
  "limits \<Rightarrow> int \<Rightarrow> int \<Rightarrow> int \<Rightarrow> int \<Rightarrow> counts \<Rightarrow> bool \<times> counts" where
  "checkAll l sec minute hour day counts =
     (case check (rps l) ''s'' sec counts of
        (False, c1) \<Rightarrow> (False, c1)
      | (True, c1) \<Rightarrow>
     (case check (rpm l) ''m'' minute c1 of
        (False, c2) \<Rightarrow> (False, c2)
      | (True, c2) \<Rightarrow>
     (case check (rph l) ''h'' hour c2 of
        (False, c3) \<Rightarrow> (False, c3)
      | (True, c3) \<Rightarrow> check (rpd l) ''d'' day c3)))"

datatype gate = Next | Respond response

text \<open>
  The middleware \<open>authAndRateLimit\<close>, with \<open>Date.now()\<close> passed as \<open>now\<close>: it either
  calls \<open>next()\<close> or writes a response, and it leaves \<open>requestCounts\<close> changed.
\<close>

definition authAndRateLimit ::
  "apiKeys \<Rightarrow> request \<Rightarrow> int \<Rightarrow> requestCounts \<Rightarrow> gate \<times> requestCounts" where
  "authAndRateLimit keys req now rc =
     (case getLimits keys (requestKey req) of
        None \<Rightarrow> (Respond (failPng (Str (js ''Unauthorized: Invalid API key.'')) 401), rc)
      | Some (key, l) \<Rightarrow>
          (let sec = now div 1000;
               minute = now div (1000 * 60);
               hour = now div (1000 * 60 * 60);
               day = now div (1000 * 60 * 60 * 24);
               counts = (case rc key of None \<Rightarrow> Map.empty | Some c \<Rightarrow> c)
           in case checkAll l sec minute hour day counts of
                (False, counts') \<Rightarrow>
                  (Respond (failPng (Str (js ''Too Many Requests'')) 429), rc(key \<mapsto> counts'))
              | (True, counts') \<Rightarrow> (Next, rc(key \<mapsto> counts'))))"

section \<open>The counter store as plain objects\<close>

text \<open>
  \<open>requestCounts\<close> and the \<open>counts\<close> objects are created with \<open>{}\<close>, so they inherit
  from \<open>Object.prototype\<close>. This section models that: \<open>prototypeProps\<close> are the
  properties the middleware has put on \<open>Object.prototype\<close>, \<open>ownProps key\<close> are the own
  properties of the object \<open>requestCounts[key]\<close>, and \<open>created\<close> are the own properties of
  \<open>requestCounts\<close>. For a key whose object is its own, the maps of the previous section
  are what a request reads and writes (lemma \<open>objects_agree_with_map\<close> below).
\<close>

record objects =
  prototypeProps :: counts
  ownProps :: "jsstring \<Rightarrow> counts"
  created :: "jsstring set"

text \<open>
  The properties every object inherits from \<open>Object.prototype\<close>, other than
  \<open>__proto__\<close>: each is a function, an object of its own that inherits from
  \<open>Object.prototype\<close> in turn. \<open>counterNames\<close> are the properties \<open>check\<close> writes, and
  \<open>inheritedNumber\<close> is what \<open>requestCounts[key]\<close> finds on \<open>Object.prototype\<close> when the
  key is one of them.
\<close>

definition builtinNames :: "jsstring list" where
  "builtinNames =
     [js ''constructor'', js ''__defineGetter__'', js ''__defineSetter__'',
      js ''hasOwnProperty'', js ''__lookupGetter__'', js ''__lookupSetter__'',
      js ''isPrototypeOf'', js ''propertyIsEnumerable'', js ''toString'', js ''valueOf'',
      js ''toLocaleString'']"

definition counterNames :: "string list" where
  "counterNames =
     [''ts_s'', ''count_s'', ''ts_m'', ''count_m'', ''ts_h'', ''count_h'', ''ts_d'', ''count_d'']"

definition inheritedNumber :: "objects \<Rightarrow> jsstring \<Rightarrow> jsnum option" where
  "inheritedNumber st key =
     (case filter (\<lambda>name. js name = key) counterNames of
        [] \<Rightarrow> None
      | name # _ \<Rightarrow> prototypeProps st name)"

text \<open>
  What \<open>requestCounts[key]\<close> is after the lines
  \<open>if (!requestCounts[key]) requestCounts[key] = {}\<close>: \<open>Object.prototype\<close> itself for the
  key \<open>__proto__\<close>; an object of the key's own (stored earlier, an inherited function, or
  created now); or an inherited number that is truthy.
\<close>

datatype target = ObjectPrototype | OwnObject jsstring | PrimitiveNumber

definition newObject :: "objects \<Rightarrow> jsstring \<Rightarrow> objects" where
  "newObject st key =
     st\<lparr>ownProps := (ownProps st)(key := Map.empty), created := insert key (created st)\<rparr>"

definition countsObject :: "objects \<Rightarrow> jsstring \<Rightarrow> target \<times> objects" where
  "countsObject st key =
     (if key = js ''__proto__'' then (ObjectPrototype, st)
      else if key \<in> created st \<or> key \<in> set builtinNames then (OwnObject key, st)
      else
        (case inheritedNumber st key of
           None \<Rightarrow> (OwnObject key, newObject st key)
         | Some v \<Rightarrow>
             if truthy (Number v) then (PrimitiveNumber, st)
             else (OwnObject key, newObject st key)))"

text \<open>
  Reading a property goes up the prototype chain. Writing makes an own property of the
  object; on a number it does nothing (\<open>index.js\<close> is not in strict mode).
\<close>

definition getProp :: "objects \<Rightarrow> target \<Rightarrow> string \<Rightarrow> jsnum option" where
  "getProp st obj p =
     (case obj of
        ObjectPrototype \<Rightarrow> prototypeProps st p
      | OwnObject key \<Rightarrow>
          (case ownProps st key p of Some v \<Rightarrow> Some v | None \<Rightarrow> prototypeProps st p)
      | PrimitiveNumber \<Rightarrow> prototypeProps st p)"

definition setProp :: "objects \<Rightarrow> target \<Rightarrow> string \<Rightarrow> jsnum \<Rightarrow> objects" where
  "setProp st obj p v =
     (case obj of
        ObjectPrototype \<Rightarrow> st\<lparr>prototypeProps := (prototypeProps st)(p \<mapsto> v)\<rparr>
      | OwnObject key \<Rightarrow> st\<lparr>ownProps := (ownProps st)(key := (ownProps st key)(p \<mapsto> v))\<rparr>
      | PrimitiveNumber \<Rightarrow> st)"

text \<open>
  \<open>check\<close>, the chain of the four checks and the middleware again, word for word, on
  these objects.
\<close>

definition checkOnObject ::
  "int option \<Rightarrow> string \<Rightarrow> int \<Rightarrow> target \<Rightarrow> objects \<Rightarrow> bool \<times> objects" where
  "checkOnObject limit unit timestamp obj st =
     (case limit of
        None \<Rightarrow> (True, st)
      | Some l \<Rightarrow>
          if l = 0 then (False, st)
          else
            (let countKey = ''count_'' @ unit;
                 tsKey = ''ts_'' @ unit;
                 st' =
                   (if getProp st obj tsKey \<noteq> Some (Num timestamp)
                    then setProp (setProp st obj tsKey (Num timestamp)) obj countKey (Num 1)
                    else setProp st obj countKey (increment (getProp st obj countKey)))
             in (withinLimit (getProp st' obj countKey) l, st')))"

definition checkAllOnObject ::
  "limits \<Rightarrow> int \<Rightarrow> int \<Rightarrow> int \<Rightarrow> int \<Rightarrow> target \<Rightarrow> objects \<Rightarrow> bool \<times> objects" where
  "checkAllOnObject l sec minute hour day obj st =
     (case checkOnObject (rps l) ''s'' sec obj st of
        (False, s1) \<Rightarrow> (False, s1)
      | (True, s1) \<Rightarrow>
     (case checkOnObject (rpm l) ''m'' minute obj s1 of
        (False, s2) \<Rightarrow> (False, s2)
      | (True, s2) \<Rightarrow>
     (case checkOnObject (rph l) ''h'' hour obj s2 of
        (False, s3) \<Rightarrow> (False, s3)
      | (True, s3) \<Rightarrow> checkOnObject (rpd l) ''d'' day obj s3)))"

definition authAndRateLimitOnObjects ::
  "apiKeys \<Rightarrow> request \<Rightarrow> int \<Rightarrow> objects \<Rightarrow> gate \<times> objects" where
  "authAndRateLimitOnObjects keys req now st =
     (case getLimits keys (requestKey req) of
        None \<Rightarrow> (Respond (failPng (Str (js ''Unauthorized: Invalid API key.'')) 401), st)
      | Some (key, l) \<Rightarrow>
          (let sec = now div 1000;
               minute = now div (1000 * 60);
               hour = now div (1000 * 60 * 60);
               day = now div (1000 * 60 * 60 * 24)
           in case countsObject st key of
                (obj, st0) \<Rightarrow>
                  (case checkAllOnObject l sec minute hour day obj st0 of
                     (False, st') \<Rightarrow>
                       (Respond (failPng (Str (js ''Too Many Requests'')) 429), st')
                   | (True, st') \<Rightarrow> (Next, st'))))"

section \<open>The route handlers\<close>

text \<open>
  The query (or body) parameters that decide what a handler does; the others are only
  handed on to the renderers.
\<close>

record params =
  chtParam :: jsvalue
  chsParam :: jsvalue
  chldParam :: jsvalue
  chofParam :: jsvalue
  formatParam :: jsvalue
  fParam :: jsvalue
  cParam :: jsvalue
  chartParam :: jsvalue
  encodingParam :: jsvalue
  textParam :: jsvalue

text \<open>
  The modules \<open>lib/charts\<close>, \<open>lib/qr\<close>, \<open>lib/graphviz\<close>, \<open>lib/pdf\<close> and
  \<open>lib/google_image_charts\<close> are not part of the sources. A handler calls each of their
  functions at most once, so the model takes what each call does as a parameter: it
  returns (or its promise resolves) with a value, or it throws (or its promise rejects)
  with a value. \<open>base64Decode\<close> stands for \<open>Buffer.from(chart, 'base64').toString('utf8')\<close>.
\<close>

datatype 'a outcome = Returns 'a | Fails jsvalue

record collaborators =
  parseSize :: "unit outcome"
  renderGraphviz :: "8 word list outcome"
  renderQr :: "8 word list outcome"
  toChartJs :: "jsvalue outcome"
  renderChartJs :: "8 word list outcome"
  base64Decode :: "jsstring outcome"
  getPdfBufferFromPng :: "8 word list outcome"
  getPdfBufferWithText :: "8 word list outcome"

text \<open>
  What a handler does with a request: it writes a response; or an exception leaves the
  handler (\<open>Escaped\<close>); or a promise is rejected with no handler attached and no response
  is written (\<open>Unhandled\<close>).
\<close>

datatype handled = Responded response | Escaped | Unhandled

definition rendered :: "string \<Rightarrow> 8 word list \<Rightarrow> response" where
  "rendered mime buf =
     \<lparr>status = 200, contentType = Some mime, errorHeader = None, body = Rendered buf\<rparr>"

definition failPdf :: "collaborators \<Rightarrow> jsvalue \<Rightarrow> handled" where
  "failPdf co msg =
     (case getPdfBufferWithText co of
        Returns buf \<Rightarrow>
          Responded \<lparr>status = 500, contentType = Some ''application/pdf'',
                      errorHeader = Some (sanitizeErrorHeader msg), body = ErrorPdf msg\<rparr>
      | Fails err \<Rightarrow> Unhandled)"

text \<open>The three values of \<open>opts.failFn\<close>, called with the default status 500.\<close>

datatype failFn = FailPng | FailSvg | FailPdf

definition callFailFn :: "collaborators \<Rightarrow> failFn \<Rightarrow> jsvalue \<Rightarrow> handled" where
  "callFailFn co fn msg =
     (case fn of
        FailPng \<Rightarrow> Responded (failPng msg 500)
      | FailSvg \<Rightarrow> Responded (failSvg msg 500)
      | FailPdf \<Rightarrow> failPdf co msg)"

text \<open>
  The three values of \<open>opts.onRenderHandler\<close>, named by the \<open>failFn\<close> they are set
  together with. A rejection inside the handler reaches the \<open>catch\<close> of
  \<open>doChartjsRender\<close>, which calls \<open>failFn\<close>.
\<close>

definition onRenderHandler :: "collaborators \<Rightarrow> failFn \<Rightarrow> 8 word list \<Rightarrow> handled" where
  "onRenderHandler co fn buf =
     (case fn of
        FailPng \<Rightarrow> Responded (rendered ''image/png'' buf)
      | FailSvg \<Rightarrow> Responded (rendered ''image/svg+xml'' buf)
      | FailPdf \<Rightarrow>
          (case getPdfBufferFromPng co of
             Returns pdfBuf \<Rightarrow> Responded (rendered ''application/pdf'' pdfBuf)
           | Fails err \<Rightarrow> callFailFn co FailPdf err))"

text \<open>\<open>a || b\<close> on values.\<close>

definition orElse :: "jsvalue \<Rightarrow> jsvalue \<Rightarrow> jsvalue" where
  "orElse a b = (if truthy a then a else b)"

definition doChartjsRender :: "collaborators \<Rightarrow> failFn \<Rightarrow> params \<Rightarrow> handled" where
  "doChartjsRender co fn q =
     (let chart = orElse (cParam q) (chartParam q);
          encoding = orElse (encodingParam q) (Str (js ''url''))
      in if \<not> truthy chart
         then callFailFn co fn (Str (js ''You are missing variable `c` or `chart`''))
         else
           (case (if encoding = Str (js ''base64'') then base64Decode co else Returns [])
            of
              Fails err \<Rightarrow> callFailFn co fn err
            | Returns untrustedInput \<Rightarrow>
                (case renderChartJs co of
                   Returns buf \<Rightarrow> onRenderHandler co fn buf
                 | Fails err \<Rightarrow> callFailFn co fn err)))"

text \<open>
  \<open>toLowerCase\<close>, written out for the letters \<open>A\<close> to \<open>Z\<close>. JavaScript lowers other
  capitals too; none of them becomes a letter of \<open>png\<close>, \<open>svg\<close> or \<open>pdf\<close>.
\<close>

definition toLowerCase :: "jsstring \<Rightarrow> jsstring" where
  "toLowerCase s = map (\<lambda>ch. if 0x41 \<le> ch \<and> ch \<le> 0x5A then ch + 0x20 else ch) s"

text \<open>
  \<open>(f || format || 'png').toLowerCase()\<close>: a type error when the chosen value is not a
  string.
\<close>

definition outputFormat :: "params \<Rightarrow> jsstring option" where
  "outputFormat q =
     (case orElse (fParam q) (orElse (formatParam q) (Str (js ''png''))) of
        Str s \<Rightarrow> Some (toLowerCase s)
      | _ \<Rightarrow> None)"

text \<open>The text of a template literal with one value in it.\<close>

definition toText :: "jsvalue \<Rightarrow> jsstring" where
  "toText v =
     (case v of
        Undefined \<Rightarrow> js ''undefined''
      | Str s \<Rightarrow> s
      | Number x \<Rightarrow> String_of x
      | Object t \<Rightarrow> t)"

definition handleGraphviz :: "collaborators \<Rightarrow> jsvalue \<Rightarrow> handled" where
  "handleGraphviz co format =
     (case renderGraphviz co of
        Returns buf \<Rightarrow>
          Responded (rendered (if format = Str (js ''png'') then ''image/png''
                               else ''image/svg+xml'') buf)
      | Fails err \<Rightarrow>
          (if format = Str (js ''png'')
           then Responded (failPng (Str (js ''Graph Error: '' @ toText err)) 500)
           else Responded (failSvg (Str (js ''Graph Error: '' @ toText err)) 500)))"

text \<open>
  \<open>handleGChart\<close>. A method call on a value that is not a string (\<open>cht.startsWith\<close>,
  \<open>chs.split\<close>, \<open>(chld || '').split\<close>) is a type error, and nothing in the function
  catches it; the promise of the last \<open>renderChartJs\<close> has a \<open>then\<close> and no \<open>catch\<close>.
\<close>

definition handleGChart :: "collaborators \<Rightarrow> params \<Rightarrow> handled" where
  "handleGChart co q =
     (case chtParam q of
        Str cht \<Rightarrow>
          if startsWith cht (js ''gv'') then
            (if truthy (chsParam q)
             then (case parseSize co of
                     Returns sz \<Rightarrow> handleGraphviz co (chofParam q)
                   | Fails err \<Rightarrow> Escaped)
             else handleGraphviz co (chofParam q))
          else if cht = js ''qr'' then
            (case chsParam q of
               Str chs \<Rightarrow>
                 (case orElse (chldParam q) (Str []) of
                    Str chld \<Rightarrow>
                      (case renderQr co of
                         Returns buf \<Rightarrow> Responded (rendered ''image/png'' buf)
                       | Fails err \<Rightarrow> Responded (failPng err 500))
                  | _ \<Rightarrow> Escaped)
             | _ \<Rightarrow> Escaped)
          else
            (case toChartJs co of
               Fails err \<Rightarrow>
                 Responded
                   \<lparr>status = 500, contentType = None, errorHeader = None,
                    body = PlainText
                             (js ''Sorry, this chart configuration is not supported right now'')\<rparr>
             | Returns converted \<Rightarrow>
                 if formatParam q = Str (js ''chartjs-config'') then
                   Responded
                     \<lparr>status = 200, contentType = Some ''application/json'',
                      errorHeader = None, body = ConfigText converted\<rparr>
                 else
                   (case renderChartJs co of
                      Returns buf \<Rightarrow> Responded (rendered ''image/png'' buf)
                    | Fails err \<Rightarrow> Unhandled))
      | _ \<Rightarrow> Escaped)"

text \<open>\<open>app.get('/chart')\<close>, \<open>app.post('/chart')\<close> (with the body as \<open>q\<close>) and \<open>app.get('/qr')\<close>.\<close>

definition chartGet :: "collaborators \<Rightarrow> params \<Rightarrow> handled" where
  "chartGet co q =
     (if truthy (chtParam q) then handleGChart co q
      else
        (case outputFormat q of
           None \<Rightarrow> Escaped
         | Some fmt \<Rightarrow>
             if fmt = js ''pdf'' then doChartjsRender co FailPdf q
             else if fmt = js ''svg'' then doChartjsRender co FailSvg q
             else if fmt = [] \<or> fmt = js ''png'' then doChartjsRender co FailPng q
             else
               Responded
                 \<lparr>status = 500, contentType = None, errorHeader = None,
                  body = PlainText (js ''Unsupported format '' @ fmt)\<rparr>))"

definition chartPost :: "collaborators \<Rightarrow> params \<Rightarrow> handled" where
  "chartPost co q =
     (case outputFormat q of
        None \<Rightarrow> Escaped
      | Some fmt \<Rightarrow>
          if fmt = js ''pdf'' then doChartjsRender co FailPdf q
          else if fmt = js ''svg'' then doChartjsRender co FailSvg q
          else doChartjsRender co FailPng q)"

definition qr :: "collaborators \<Rightarrow> params \<Rightarrow> handled" where
  "qr co q =
     (if \<not> truthy (textParam q)
      then Responded (failPng (Str (js ''You are missing variable `text`'')) 500)
      else
        (let format = (if formatParam q = Str (js ''svg'') then js ''svg'' else js ''png'')
         in case renderQr co of
              Returns buf \<Rightarrow>
                Responded (rendered (if format = js ''png'' then ''image/png''
                                     else ''image/svg+xml'') buf)
            | Fails err \<Rightarrow> Responded (failPng err 500)))"

text \<open>
  The protected routes: the middleware runs first, and the handler of the route runs when
  the middleware calls \<open>next()\<close>.
\<close>

datatype route = ChartGet | ChartPost | Qr | GChart

definition handler :: "route \<Rightarrow> collaborators \<Rightarrow> params \<Rightarrow> handled" where
  "handler r co q =
     (case r of
        ChartGet \<Rightarrow> chartGet co q
      | ChartPost \<Rightarrow> chartPost co q
      | Qr \<Rightarrow> qr co q
      | GChart \<Rightarrow> handleGChart co q)"

definition protected ::
  "apiKeys \<Rightarrow> collaborators \<Rightarrow> route \<Rightarrow> request \<Rightarrow> params \<Rightarrow> int \<Rightarrow> requestCounts
     \<Rightarrow> handled \<times> requestCounts" where
  "protected keys co r req q now rc =
     (case authAndRateLimit keys req now rc of
        (Respond res, rc') \<Rightarrow> (Responded res, rc')
      | (Next, rc') \<Rightarrow> (handler r co q, rc'))"

section \<open>Vocabulary for the rate-limit properties\<close>

text \<open>
  The four windows in the order in which the middleware checks them, each with the unit
  letter, the property of \<open>limits\<close> and the bucket number that \<open>authAndRateLimit\<close> passes
  to \<open>check\<close> for it.
\<close>

datatype window = Second | Minute | Hour | Day

fun unitOf :: "window \<Rightarrow> string" where
  "unitOf Second = ''s''"
| "unitOf Minute = ''m''"
| "unitOf Hour = ''h''"
| "unitOf Day = ''d''"

fun limitOf :: "window \<Rightarrow> limits \<Rightarrow> int option" where
  "limitOf Second l = rps l"
| "limitOf Minute l = rpm l"
| "limitOf Hour l = rph l"
| "limitOf Day l = rpd l"



definition tsKey :: "window \<Rightarrow> string" where
  "tsKey w = ''ts_'' @ unitOf w"

definition countKey :: "window \<Rightarrow> string" where
  "countKey w = ''count_'' @ unitOf w"

text \<open>The \<open>counts\<close> object the middleware works on for a key: the stored one, or a new one.\<close>

definition countsOf :: "requestCounts \<Rightarrow> jsstring \<Rightarrow> counts" where
  "countsOf rc key = (case rc key of None \<Rightarrow> Map.empty | Some c \<Rightarrow> c)"

definition tooMany :: gate where
  "tooMany = Respond (failPng (Str (js ''Too Many Requests'')) 429)"

definition unauthorized :: gate where
  "unauthorized = Respond (failPng (Str (js ''Unauthorized: Invalid API key.'')) 401)"





text \<open>Whether a request carries a bearer-style \<open>Authorization\<close> header.\<close>

definition hasBearer :: "request \<Rightarrow> bool" where
  "hasBearer req =
     (case authorization req of Some h \<Rightarrow> startsWith h (js ''Bearer '') | None \<Rightarrow> False)"

section \<open>Example data\<close>

definition exampleKey :: jsstring where
  "exampleKey = js ''foo''"

definition exampleKeys :: apiKeys where
  "exampleKeys = [js ''foo'' \<mapsto> noLimits\<lparr>rpm := Some 2\<rparr>, js ''_anonymous_'' \<mapsto> noLimits]"

definition exampleRequest :: request where
  "exampleRequest = \<lparr>authorization = Some (js ''Bearer foo''), queryKey = Undefined\<rparr>"

definition exhaustedCounts :: requestCounts where
  "exhaustedCounts = [js ''foo'' \<mapsto> [''ts_m'' \<mapsto> Num 1, ''count_m'' \<mapsto> Num 3]]"

definition blockedKeys :: apiKeys where
  "blockedKeys = [js ''foo'' \<mapsto> noLimits\<lparr>rps := Some 0\<rparr>, js ''_anonymous_'' \<mapsto> noLimits]"

definition strangerRequest :: request where
  "strangerRequest = \<lparr>authorization = Some (js ''Bearer nope''), queryKey = Str (js ''foo'')\<rparr>"

definition queryRequest :: request where
  "queryRequest = \<lparr>authorization = None, queryKey = Str (js ''foo'')\<rparr>"

definition anonymousRequest :: request where
  "anonymousRequest = \<lparr>authorization = Some (js ''Basic abc''), queryKey = Undefined\<rparr>"



definition noObjects :: objects where
  "noObjects = \<lparr>prototypeProps = Map.empty, ownProps = (\<lambda>key. Map.empty), created = {}\<rparr>"

definition protoKeys :: apiKeys where
  "protoKeys =
     [js ''__proto__'' \<mapsto> noLimits\<lparr>rps := Some 5\<rparr>, js ''bar'' \<mapsto> noLimits\<lparr>rps := Some 1\<rparr>]"

definition protoRequest :: request where
  "protoRequest = \<lparr>authorization = Some (js ''Bearer __proto__''), queryKey = Undefined\<rparr>"

definition barRequest :: request where
  "barRequest = \<lparr>authorization = Some (js ''Bearer bar''), queryKey = Undefined\<rparr>"

section \<open>Vocabulary for the parser properties\<close>

text \<open>
  Reading \<open>limits[key]\<close>; the first two fields of a part as the callback of \<open>forEach\<close>
  takes them; the bound a part sets for a key (none when the first field is not that key,
  the key is not a unit, or \<open>parseInt\<close> of the second field is \<open>NaN\<close>); and the test
  that sends a string down the bare-number branch.
\<close>

definition getLimit :: "jsstring \<Rightarrow> limits \<Rightarrow> int option" where
  "getLimit key l =
     (if key = js ''rps'' then rps l
      else if key = js ''rpm'' then rpm l
      else if key = js ''rph'' then rph l
      else if key = js ''rpd'' then rpd l
      else None)"

definition partKey :: "jsstring \<Rightarrow> jsstring option" where
  "partKey part = element (split_on colon part) 0"

definition partValue :: "jsstring \<Rightarrow> jsnum" where
  "partValue part = parseInt (ToString (element (split_on colon part) 1))"

definition partBound :: "jsstring \<Rightarrow> jsstring \<Rightarrow> int option" where
  "partBound key part =
     (if key \<in> set unitKeys \<and> partKey part = Some key
      then (case partValue part of Num v \<Rightarrow> Some v | NaN \<Rightarrow> None)
      else None)"

definition isPlainNumber :: "jsstring \<Rightarrow> bool" where
  "isPlainNumber s = (case parseInt s of Num n \<Rightarrow> String_of (Num n) = s | NaN \<Rightarrow> False)"

section \<open>Vocabulary for the handlers\<close>

text \<open>
  The \<open>Content-Type\<close> that belongs to each \<open>failFn\<close>, and the \<open>failFn\<close> that the chart
  routes choose for an output format.
\<close>

definition mimeOf :: "failFn \<Rightarrow> string" where
  "mimeOf fn =
     (case fn of
        FailPng \<Rightarrow> ''image/png''
      | FailSvg \<Rightarrow> ''image/svg+xml''
      | FailPdf \<Rightarrow> ''application/pdf'')"

definition chartFailFn :: "jsstring \<Rightarrow> failFn" where
  "chartFailFn fmt =
     (if fmt = js ''pdf'' then FailPdf else if fmt = js ''svg'' then FailSvg else FailPng)"

section \<open>Properties of the middleware\<close>

lemma check_None: "check None u t c = (True, c)"
  by (simp add: check_def)

lemma check_zero: "check (Some 0) u t c = (False, c)"
  by (simp add: check_def)

lemma tsKey_neq_countKey: "tsKey w \<noteq> countKey w'"
  by (simp add: tsKey_def countKey_def)


lemma check_same:
  "b \<noteq> 0 \<Longrightarrow> c (tsKey w) = Some (Num t) \<Longrightarrow> c (countKey w) = Some (Num n) \<Longrightarrow>
   check (Some b) (unitOf w) t c = (n + 1 \<le> b, c(countKey w \<mapsto> Num (n + 1)))"
  by (simp add: check_def tsKey_def countKey_def withinLimit_def increment_def Let_def)


lemma getLimits_Str: "keys k = Some l \<Longrightarrow> getLimits keys (Str k) = Some (k, l)"
  by (simp add: getLimits_def)

lemma getLimits_SomeD:
  "getLimits keys v = Some (k, l) \<Longrightarrow> v = Str k \<and> keys k = Some l"
  by (auto simp: getLimits_def split: jsvalue.splits option.splits)

lemma gate_known:
  "getLimits keys (requestKey req) = Some (k, l) \<Longrightarrow>
   authAndRateLimit keys req now rc =
     (case checkAll l (now div 1000) (now div 60000) (now div 3600000) (now div 86400000)
             (countsOf rc k) of
        (ok, c') \<Rightarrow> (if ok then Next else tooMany, rc(k \<mapsto> c')))"
  by (simp add: authAndRateLimit_def countsOf_def tooMany_def Let_def split: prod.splits bool.splits)

lemma gate_unknown:
  "getLimits keys (requestKey req) = None \<Longrightarrow>
   authAndRateLimit keys req now rc = (unauthorized, rc)"
  by (simp add: authAndRateLimit_def unauthorized_def)


lemma example_requestKey: "requestKey exampleRequest = Str exampleKey"
  by (simp add: requestKey_def exampleRequest_def exampleKey_def startsWith_def js_def)


lemma checkAll_zero:
  "limitOf w l = Some 0 \<Longrightarrow> fst (checkAll l s m h d c) = False"
  by (cases w) (simp_all add: checkAll_def check_zero split: prod.splits bool.splits)

text \<open>
  Claim C4. If the limits of a known credential hold the bound 0 for some window, the
  middleware answers every request of that credential with 429, whatever the time and
  whatever the stored counts.
\<close>

theorem zero_bound_blocks_every_request:
  assumes "requestKey req = Str k" and "keys k = Some l" and "limitOf w l = Some 0"
  shows "fst (authAndRateLimit keys req now rc)
           = Respond (failPng (Str (js ''Too Many Requests'')) 429)"
proof -
  have g: "getLimits keys (requestKey req) = Some (k, l)"
    using assms(1,2) by (simp add: getLimits_Str)
  have "fst (checkAll l (now div 1000) (now div 60000) (now div 3600000) (now div 86400000)
               (countsOf rc k)) = False"
    using assms(3) by (rule checkAll_zero)
  then obtain c' where "checkAll l (now div 1000) (now div 60000) (now div 3600000)
               (now div 86400000) (countsOf rc k) = (False, c')"
    by (cases "checkAll l (now div 1000) (now div 60000) (now div 3600000)
               (now div 86400000) (countsOf rc k)") simp
  then show ?thesis
    by (simp add: gate_known [OF g] tooMany_def)
qed

theorem zero_bound_blocks_every_request_witness:
  "fst (authAndRateLimit blockedKeys exampleRequest 1700000000000 exhaustedCounts)
     = Respond (failPng (Str (js ''Too Many Requests'')) 429)"
proof -
  have "blockedKeys exampleKey = Some (noLimits\<lparr>rps := Some 0\<rparr>)"
    by (simp add: blockedKeys_def exampleKey_def js_def)
  moreover have "limitOf Second (noLimits\<lparr>rps := Some 0\<rparr>) = Some 0"
    by simp
  ultimately show ?thesis
    using zero_bound_blocks_every_request
            [of exampleRequest exampleKey blockedKeys "noLimits\<lparr>rps := Some 0\<rparr>" Second
                1700000000000 exhaustedCounts]
          example_requestKey
    by simp
qed

lemma getLimits_None_iff:
  "getLimits keys v = None \<longleftrightarrow> (\<forall>k. v = Str k \<longrightarrow> keys k = None)"
  by (cases v) (auto simp: getLimits_def split: option.splits)

lemma length_Bearer: "length (js ''Bearer '') = 7"
  by (simp add: js_def)

lemma requestKey_bearer:
  "authorization req = Some (js ''Bearer '' @ k) \<Longrightarrow> requestKey req = Str k"
  by (simp add: requestKey_def startsWith_def length_Bearer) (simp add: js_def)

lemma requestKey_no_bearer:
  "\<not> hasBearer req \<Longrightarrow>
   requestKey req = (if truthy (queryKey req) then queryKey req else Str (js ''_anonymous_''))"
  by (simp add: requestKey_def hasBearer_def split: option.splits)

text \<open>
  Claim C5. The key of a request is the value after \<open>Bearer \<close> in the \<open>Authorization\<close>
  header when the header has that form, else the \<open>key\<close> query parameter when it is set,
  else \<open>_anonymous_\<close>. When that key is not a key of \<open>apiKeys\<close>, the middleware answers
  with 401 and leaves \<open>requestCounts\<close> as it was, whatever limits \<open>_anonymous_\<close> has.
\<close>

theorem unknown_credential_is_unauthorized:
  "(\<forall>k. authorization req = Some (js ''Bearer '' @ k) \<longrightarrow> requestKey req = Str k)
   \<and> (\<not> hasBearer req \<and> truthy (queryKey req) \<longrightarrow> requestKey req = queryKey req)
   \<and> (\<not> hasBearer req \<and> \<not> truthy (queryKey req) \<longrightarrow> requestKey req = Str (js ''_anonymous_''))
   \<and> ((\<forall>k. requestKey req = Str k \<longrightarrow> keys k = None) \<longrightarrow>
        authAndRateLimit keys req now rc
          = (Respond (failPng (Str (js ''Unauthorized: Invalid API key.'')) 401), rc)
        \<and> status (failPng (Str (js ''Unauthorized: Invalid API key.'')) 401) = 401)"
proof (intro conjI allI impI)
  fix k assume "authorization req = Some (js ''Bearer '' @ k)"
  then show "requestKey req = Str k" by (rule requestKey_bearer)
next
  assume "\<not> hasBearer req \<and> truthy (queryKey req)"
  then show "requestKey req = queryKey req" by (simp add: requestKey_no_bearer)
next
  assume "\<not> hasBearer req \<and> \<not> truthy (queryKey req)"
  then show "requestKey req = Str (js ''_anonymous_'')" by (simp add: requestKey_no_bearer)
next
  assume "\<forall>k. requestKey req = Str k \<longrightarrow> keys k = None"
  then have "getLimits keys (requestKey req) = None" by (simp add: getLimits_None_iff)
  then show "authAndRateLimit keys req now rc
          = (Respond (failPng (Str (js ''Unauthorized: Invalid API key.'')) 401), rc)"
    by (simp add: gate_unknown unauthorized_def)
next
  show "status (failPng (Str (js ''Unauthorized: Invalid API key.'')) 401) = 401"
    by (simp add: failPng_def)
qed

theorem unknown_credential_is_unauthorized_witness:
  "requestKey strangerRequest = Str (js ''nope'')
   \<and> authAndRateLimit exampleKeys strangerRequest 60000 exhaustedCounts
       = (Respond (failPng (Str (js ''Unauthorized: Invalid API key.'')) 401), exhaustedCounts)
   \<and> requestKey queryRequest = Str (js ''foo'')
   \<and> requestKey anonymousRequest = Str (js ''_anonymous_'')
   \<and> fst (authAndRateLimit exampleKeys anonymousRequest 60000 exhaustedCounts) = Next"
proof -
  have auth: "authorization strangerRequest = Some (js ''Bearer '' @ js ''nope'')"
    by (simp add: strangerRequest_def js_def)
  have key: "requestKey strangerRequest = Str (js ''nope'')"
    using unknown_credential_is_unauthorized [of strangerRequest] auth by blast
  have unknown: "\<forall>k. requestKey strangerRequest = Str k \<longrightarrow> exampleKeys k = None"
    by (simp add: key exampleKeys_def) (simp add: js_def)
  have denied: "authAndRateLimit exampleKeys strangerRequest 60000 exhaustedCounts
       = (Respond (failPng (Str (js ''Unauthorized: Invalid API key.'')) 401), exhaustedCounts)"
    using unknown_credential_is_unauthorized [of strangerRequest exampleKeys 60000 exhaustedCounts]
      unknown by blast
  have noB: "\<not> hasBearer queryRequest" "\<not> hasBearer anonymousRequest"
    by (simp_all add: hasBearer_def queryRequest_def anonymousRequest_def startsWith_def js_def)
  have q: "requestKey queryRequest = Str (js ''foo'')"
    using unknown_credential_is_unauthorized [of queryRequest] noB(1)
    by (simp add: queryRequest_def truthy_def js_def)
  have a: "requestKey anonymousRequest = Str (js ''_anonymous_'')"
    using unknown_credential_is_unauthorized [of anonymousRequest] noB(2)
    by (simp add: anonymousRequest_def truthy_def)
  have "getLimits exampleKeys (requestKey anonymousRequest) = Some (js ''_anonymous_'', noLimits)"
    by (simp add: a getLimits_def exampleKeys_def)
  then have "fst (authAndRateLimit exampleKeys anonymousRequest 60000 exhaustedCounts) = Next"
    by (simp add: gate_known checkAll_def noLimits_def check_None)
  with key denied q a show ?thesis by simp
qed




lemma checkAll_unfold:
  "checkAll l s m h d c =
     (let r1 = check (rps l) ''s'' s c in
      if \<not> fst r1 then (False, snd r1) else
      let r2 = check (rpm l) ''m'' m (snd r1) in
      if \<not> fst r2 then (False, snd r2) else
      let r3 = check (rph l) ''h'' h (snd r2) in
      if \<not> fst r3 then (False, snd r3) else check (rpd l) ''d'' d (snd r3))"
  by (simp add: checkAll_def Let_def split: prod.splits bool.splits)














section \<open>Properties of the store as plain objects\<close>

text \<open>
  For a key whose \<open>counts\<close> object is an object of its own, one request does on the
  objects what \<open>authAndRateLimit\<close> does on the maps: the outcome is the same, and what the
  object holds afterwards, inherited properties included, is what the map holds.
\<close>

lemma getProp_setProp:
  "obj \<noteq> PrimitiveNumber \<Longrightarrow> getProp (setProp st obj p v) obj = (getProp st obj)(p \<mapsto> v)"
  by (cases obj) (auto simp: getProp_def setProp_def fun_eq_iff split: option.splits)

lemma checkOnObject_check:
  assumes "obj \<noteq> PrimitiveNumber"
  shows "fst (checkOnObject limit u t obj st) = fst (check limit u t (getProp st obj))"
    and "getProp (snd (checkOnObject limit u t obj st)) obj
           = snd (check limit u t (getProp st obj))"
  using assms
  by (auto simp: checkOnObject_def check_def Let_def getProp_setProp split: option.splits)

lemma checkAllOnObject_unfold:
  "checkAllOnObject l s m h d obj st =
     (let r1 = checkOnObject (rps l) ''s'' s obj st in
      if \<not> fst r1 then (False, snd r1) else
      let r2 = checkOnObject (rpm l) ''m'' m obj (snd r1) in
      if \<not> fst r2 then (False, snd r2) else
      let r3 = checkOnObject (rph l) ''h'' h obj (snd r2) in
      if \<not> fst r3 then (False, snd r3) else checkOnObject (rpd l) ''d'' d obj (snd r3))"
  by (simp add: checkAllOnObject_def Let_def split: prod.splits bool.splits)

lemma checkAllOnObject_checkAll:
  assumes "obj \<noteq> PrimitiveNumber"
  shows "fst (checkAllOnObject l s m h d obj st) = fst (checkAll l s m h d (getProp st obj))"
    and "getProp (snd (checkAllOnObject l s m h d obj st)) obj
           = snd (checkAll l s m h d (getProp st obj))"
  using assms
  by (simp_all add: checkAllOnObject_unfold checkAll_unfold Let_def checkOnObject_check)

lemma objects_agree_with_map:
  assumes "getLimits keys (requestKey req) = Some (key, l)"
    and "countsObject st key = (obj, st0)" and "obj \<noteq> PrimitiveNumber"
    and "countsOf rc key = getProp st0 obj"
  shows "fst (authAndRateLimitOnObjects keys req now st) = fst (authAndRateLimit keys req now rc)"
    and "getProp (snd (authAndRateLimitOnObjects keys req now st)) obj
           = countsOf (snd (authAndRateLimit keys req now rc)) key"
proof -
  let ?o = "checkAllOnObject l (now div 1000) (now div 60000) (now div 3600000)
              (now div 86400000) obj st0"
  let ?m = "checkAll l (now div 1000) (now div 60000) (now div 3600000) (now div 86400000)
              (countsOf rc key)"
  have o: "authAndRateLimitOnObjects keys req now st = (if fst ?o then Next else tooMany, snd ?o)"
    using assms(1,2)
    by (simp add: authAndRateLimitOnObjects_def tooMany_def Let_def split: prod.splits bool.splits)
  have m: "authAndRateLimit keys req now rc = (if fst ?m then Next else tooMany, rc(key \<mapsto> snd ?m))"
    by (simp add: gate_known [OF assms(1)] split: prod.splits)
  have f: "fst ?o = fst ?m" and s: "getProp (snd ?o) obj = snd ?m"
    using checkAllOnObject_checkAll [OF assms(3), of l _ _ _ _ st0] assms(4) by simp_all
  show "fst (authAndRateLimitOnObjects keys req now st) = fst (authAndRateLimit keys req now rc)"
    by (simp add: o m f)
  show "getProp (snd (authAndRateLimitOnObjects keys req now st)) obj
           = countsOf (snd (authAndRateLimit keys req now rc)) key"
    by (simp add: o m s countsOf_def)
qed

lemmas objects_eval =
  authAndRateLimitOnObjects_def checkAllOnObject_def checkOnObject_def countsObject_def
  getProp_def setProp_def newObject_def inheritedNumber_def counterNames_def builtinNames_def
  getLimits_def requestKey_def startsWith_def truthy_def increment_def withinLimit_def
  noLimits_def noObjects_def protoKeys_def protoRequest_def barRequest_def tooMany_def
  Let_def js_def

text \<open>
  Claim C1 fails on the code. With the credentials \<open>__proto__\<close> (limit \<open>rps:5\<close>) and
  \<open>bar\<close> (limit \<open>rps:1\<close>) registered, a request of \<open>__proto__\<close> stores the counters of
  its second on \<open>Object.prototype\<close>. The first request of \<open>bar\<close> in that second finds them
  through its new \<open>counts\<close> object, counts itself as the second one and is answered with
  429, although the bound of \<open>bar\<close> admits one request per second; without the request
  of \<open>__proto__\<close> it is admitted.
\<close>

theorem prototype_key_shares_counters:
  "authAndRateLimitOnObjects protoKeys protoRequest 100000 noObjects
     = (Next, noObjects\<lparr>prototypeProps := [''ts_s'' \<mapsto> Num 100, ''count_s'' \<mapsto> Num 1]\<rparr>)
   \<and> fst (authAndRateLimitOnObjects protoKeys barRequest 100500
            (snd (authAndRateLimitOnObjects protoKeys protoRequest 100000 noObjects)))
       = Respond (failPng (Str (js ''Too Many Requests'')) 429)
   \<and> fst (authAndRateLimitOnObjects protoKeys barRequest 100500 noObjects) = Next"
proof -
  have first: "authAndRateLimitOnObjects protoKeys protoRequest 100000 noObjects
     = (Next, noObjects\<lparr>prototypeProps := [''ts_s'' \<mapsto> Num 100, ''count_s'' \<mapsto> Num 1]\<rparr>)"
    by (simp add: objects_eval)
  have second: "fst (authAndRateLimitOnObjects protoKeys barRequest 100500
            (noObjects\<lparr>prototypeProps := [''ts_s'' \<mapsto> Num 100, ''count_s'' \<mapsto> Num 1]\<rparr>))
       = Respond (failPng (Str (js ''Too Many Requests'')) 429)"
    by (simp add: objects_eval)
  have alone: "fst (authAndRateLimitOnObjects protoKeys barRequest 100500 noObjects) = Next"
    by (simp add: objects_eval)
  from first second alone show ?thesis by simp
qed

section \<open>Properties of the header sanitizer\<close>

lemma removeNewlines_filter:
  "removeNewlines xs = filter (\<lambda>c. c \<noteq> CR \<and> c \<noteq> LF) xs"
  by (induction xs rule: removeNewlines.induct) (auto simp: CR_def LF_def)

lemma unat_ucast_byte: "unat (ucast (v::8 word) :: 16 word) = unat v"
proof -
  have "unat v < 2 ^ 8" using unsigned_less [of v] by simp
  then have "unat v < 2 ^ 16" by simp
  then show ?thesis by (simp add: unsigned_ucast_eq take_bit_nat_eq_self)
qed

lemma fromCharCode_byte: "unat (fromCharCode v) \<le> 255"
proof -
  have "unat v < 2 ^ 8" using unsigned_less [of v] by simp
  then show ?thesis by (simp add: fromCharCode_def unat_ucast_byte)
qed

lemma utf8ToAscii_bytes: "c \<in> set (utf8ToAscii s) \<Longrightarrow> unat c \<le> 255"
  by (auto simp: utf8ToAscii_def fromCharCode_byte)

lemma toScalarValues_ascii:
  "\<forall>c\<in>set s. unat c \<le> 127 \<Longrightarrow> toScalarValues s = map unat s"
  by (induction s rule: toScalarValues.induct) auto

lemma fromCharCode_ascii:
  assumes "unat (c::16 word) \<le> 127"
  shows "fromCharCode (ucast c) = c"
proof -
  from assms have small: "unat c < 2 ^ 8" by simp
  have "unat (ucast (ucast c :: 8 word) :: 16 word) = take_bit 8 (unat c)"
    by (simp add: unat_ucast_byte unsigned_ucast_eq unsigned_take_bit_eq)
  also have "\<dots> = unat c" using small by (simp add: take_bit_nat_eq_self)
  finally show ?thesis by (simp add: fromCharCode_def word_unat_eq_iff)
qed

lemma utf8ToAscii_ascii:
  assumes "\<forall>c\<in>set s. unat c \<le> 127"
  shows "utf8ToAscii s = s"
proof -
  have "concat (map utf8Bytes (map unat s)) = map (\<lambda>c. of_nat (unat c)) s"
    using assms by (induction s) (auto simp: utf8Bytes_def)
  then have "utf8ToAscii s = map (\<lambda>c. fromCharCode (of_nat (unat c))) s"
    using assms by (simp add: utf8ToAscii_def encode_def toScalarValues_ascii)
  also have "\<dots> = s"
    using assms by (induction s) (simp_all add: fromCharCode_ascii)
  finally show ?thesis .
qed

text \<open>
  Claim C10, as the code has it. For a string message the sanitizer returns the UTF-8
  bytes of the message, each as one character, without carriage returns and line feeds:
  every character of the result has a code of at most 255, none is a carriage return or a
  line feed, and a message of 7-bit characters comes back unchanged but for the removed
  line breaks. For a message that is not a string the result is the empty string.
\<close>

theorem sanitized_header_is_latin1_without_newlines:
  "(\<forall>c\<in>set (sanitizeErrorHeader (Str s)). unat c \<le> 255 \<and> c \<noteq> CR \<and> c \<noteq> LF)
   \<and> ((\<forall>c\<in>set s. unat c \<le> 127) \<longrightarrow>
        sanitizeErrorHeader (Str s) = filter (\<lambda>c. c \<noteq> CR \<and> c \<noteq> LF) s)
   \<and> sanitizeErrorHeader Undefined = []
   \<and> sanitizeErrorHeader (Number x) = []
   \<and> sanitizeErrorHeader (Object t) = []"
proof (intro conjI ballI impI)
  {
    fix c
    assume "c \<in> set (sanitizeErrorHeader (Str s))"
    then have kept: "c \<in> set (utf8ToAscii s) \<and> c \<noteq> CR \<and> c \<noteq> LF"
      by (simp add: sanitizeErrorHeader_def removeNewlines_filter)
    then show "unat c \<le> 255"
      using utf8ToAscii_bytes [of c s] by simp
    from kept show "c \<noteq> CR" and "c \<noteq> LF"
      by simp_all
  }
  {
    assume "\<forall>c\<in>set s. unat c \<le> 127"
    then have "utf8ToAscii s = s"
      by (rule utf8ToAscii_ascii)
    then show "sanitizeErrorHeader (Str s) = filter (\<lambda>c. c \<noteq> CR \<and> c \<noteq> LF) s"
      by (simp add: sanitizeErrorHeader_def removeNewlines_filter)
  }
  show "sanitizeErrorHeader Undefined = []"
    and "sanitizeErrorHeader (Number x) = []"
    and "sanitizeErrorHeader (Object t) = []"
    by (simp_all add: sanitizeErrorHeader_def)
qed

lemmas sanitize_eval =
  sanitizeErrorHeader_def utf8ToAscii_def encode_def utf8Bytes_def fromCharCode_def CR_def LF_def

theorem sanitized_header_is_latin1_without_newlines_witness:
  "sanitizeErrorHeader (Str (js ''bad\<newline> input'')) = js ''bad input''
   \<and> sanitizeErrorHeader (Str [0xE9, 0x0D, 0x0A, 0x21]) = [0xC3, 0xA9, 0x21]"
proof -
  have ascii: "\<forall>c\<in>set (js ''bad\<newline> input''). unat c \<le> 127"
    by (simp add: js_def)
  have "sanitizeErrorHeader (Str (js ''bad\<newline> input''))
          = filter (\<lambda>c. c \<noteq> CR \<and> c \<noteq> LF) (js ''bad\<newline> input'')"
    using sanitized_header_is_latin1_without_newlines [of "js ''bad\<newline> input''"] ascii
    by blast
  then have a: "sanitizeErrorHeader (Str (js ''bad\<newline> input'')) = js ''bad input''"
    by (simp add: js_def CR_def LF_def)
  have b: "sanitizeErrorHeader (Str [0xE9, 0x0D, 0x0A, 0x21]) = [0xC3, 0xA9, 0x21]"
    by (simp add: sanitize_eval)
  from a b show ?thesis by simp
qed

text \<open>
  Claim C10 as stated fails: the message \<open>U+00E9\<close> is sanitized to the two characters
  \<open>U+00C3 U+00A9\<close>, both above 127.
\<close>

theorem sanitized_header_ascii_counterexample:
  "sanitizeErrorHeader (Str [0xE9]) = [0xC3, 0xA9]
   \<and> \<not> unat (hd (sanitizeErrorHeader (Str [0xE9]))) \<le> 127"
  by (simp add: sanitize_eval)

section \<open>Properties of the limit parser\<close>

lemma digit_char:
  assumes "d < 10"
  shows "isDigit (of_nat (48 + d))" and "digitValue (of_nat (48 + d)) = int d"
proof -
  from assms have small: "48 + d < 2 ^ 16" by simp
  have u: "unat (of_nat (48 + d) :: 16 word) = 48 + d"
    using small by (simp add: unat_of_nat del: of_nat_add)
  show "isDigit (of_nat (48 + d))"
    unfolding isDigit_def word_le_nat_alt u using assms by simp
  have "uint (of_nat (48 + d) :: 16 word) = int (48 + d)"
    using u by (metis uint_nat)
  then show "digitValue (of_nat (48 + d)) = int d"
    by (simp add: digitValue_def)
qed

lemma decimal_digits: "c \<in> set (decimal n) \<Longrightarrow> isDigit c"
proof (induction n arbitrary: c rule: decimal.induct)
  case (1 n)
  show ?case
  proof (cases "n < 10")
    case True
    with "1.prems" show ?thesis
      by (simp add: decimal.simps [of n] digit_char(1) del: of_nat_add)
  next
    case False
    have "n mod 10 < 10" by simp
    then have "isDigit (of_nat (48 + n mod 10))" by (rule digit_char(1))
    with False "1.prems" "1.IH" show ?thesis
      by (auto simp: decimal.simps [of n] simp del: of_nat_add)
  qed
qed

lemma decimal_nonempty: "decimal n \<noteq> []"
  by (simp add: decimal.simps [of n])

lemma digitsValue_snoc: "digitsValue (ds @ [d]) = 10 * digitsValue ds + digitValue d"
  by (simp add: digitsValue_def)

lemma digitsValue_decimal: "digitsValue (decimal n) = int n"
proof (induction n rule: decimal.induct)
  case (1 n)
  show ?case
  proof (cases "n < 10")
    case True
    then show ?thesis
      using digit_char(2) [of n]
      by (simp add: decimal.simps [of n] digitsValue_def del: of_nat_add)
  next
    case False
    have "digitValue (of_nat (48 + n mod 10)) = int (n mod 10)"
      by (rule digit_char(2)) simp
    with False "1.IH" show ?thesis
      by (simp add: decimal.simps [of n] digitsValue_snoc del: of_nat_add) presburger
  qed
qed

lemma digit_not_space_or_sign:
  "isDigit c \<Longrightarrow> \<not> isStrWhiteSpace c \<and> c \<noteq> plus_sign \<and> c \<noteq> minus_sign"
  by (auto simp: isDigit_def isStrWhiteSpace_def plus_sign_def minus_sign_def)

lemma parseInt_digits:
  assumes "ds \<noteq> []" and "\<forall>c\<in>set ds. isDigit c"
  shows "parseInt ds = Num (digitsValue ds)"
proof -
  from assms obtain c cs where ds: "ds = c # cs" by (cases ds) auto
  with assms(2) have c: "isDigit c" by simp
  have ns: "\<not> isStrWhiteSpace c" "c \<noteq> plus_sign" "c \<noteq> minus_sign"
    using digit_not_space_or_sign [OF c] by simp_all
  have 1: "dropWhile isStrWhiteSpace ds = c # cs"
    using ds ns by simp
  have 2: "takeWhile isDigit (c # cs) = ds"
    using assms(2) ds by simp
  show ?thesis
    unfolding parseInt_def 1 Let_def using ns 2 assms(1) by simp
qed

lemma parseInt_decimal: "parseInt (decimal n) = Num (int n)"
  by (simp add: parseInt_digits decimal_nonempty decimal_digits digitsValue_decimal)

lemma parseLimits_decimal: "parseLimits (Some (decimal n)) = noLimits\<lparr>rps := Some (int n)\<rparr>"
  by (simp add: parseLimits_def decimal_nonempty parseInt_decimal String_of_def)


lemmas parse_eval =
  parseLimits_def parsePart_def parseInt_def js_def String_of_def noLimits_def element_def
  ToString_def comma_def colon_def plus_sign_def minus_sign_def isDigit_def digitValue_def
  digitsValue_def isStrWhiteSpace_def unitKeys_def setLimit_def decimal.simps

text \<open>
  Claim C6, as the code has it. \<open>"10"\<close> and \<open>"rps:10"\<close> parse to the same limits, the
  per-second bound 10. For every natural number \<open>n\<close> below \<open>2 ^ 53\<close> (where a Number is
  the integer itself) the decimal numeral of \<open>n\<close>, written without leading zeros as
  \<open>String\<close> writes it, parses to the per-second bound \<open>n\<close>. \<open>"rpm:60,rpd:1000"\<close> sets the
  minute bound 60 and the day bound 1000 and nothing else; \<open>"garbage"\<close>, the empty
  string and \<open>undefined\<close> give no bound at all.
\<close>

theorem bare_number_is_per_second_bound:
  "parseLimits (Some (js ''10'')) = parseLimits (Some (js ''rps:10''))
   \<and> parseLimits (Some (js ''10'')) = noLimits\<lparr>rps := Some 10\<rparr>
   \<and> (n < 2 ^ 53 \<longrightarrow> parseLimits (Some (decimal n)) = noLimits\<lparr>rps := Some (int n)\<rparr>)
   \<and> parseLimits (Some (js ''rpm:60,rpd:1000'')) = noLimits\<lparr>rpm := Some 60, rpd := Some 1000\<rparr>
   \<and> parseLimits (Some (js ''garbage'')) = noLimits
   \<and> parseLimits (Some []) = noLimits
   \<and> parseLimits None = noLimits"
proof (intro conjI impI)
  show "parseLimits (Some (js ''10'')) = parseLimits (Some (js ''rps:10''))"
    by (simp add: parse_eval)
  show "parseLimits (Some (js ''10'')) = noLimits\<lparr>rps := Some 10\<rparr>"
    by (simp add: parse_eval)
  show "parseLimits (Some (decimal n)) = noLimits\<lparr>rps := Some (int n)\<rparr>"
    by (rule parseLimits_decimal)
  show "parseLimits (Some (js ''rpm:60,rpd:1000'')) = noLimits\<lparr>rpm := Some 60, rpd := Some 1000\<rparr>"
    by (simp add: parse_eval)
  show "parseLimits (Some (js ''garbage'')) = noLimits"
    by (simp add: parse_eval)
  show "parseLimits (Some []) = noLimits"
    by (simp add: parseLimits_def)
  show "parseLimits None = noLimits"
    by (simp add: parseLimits_def)
qed

theorem bare_number_is_per_second_bound_witness:
  "decimal 600 = js ''600'' \<and> parseLimits (Some (js ''600'')) = noLimits\<lparr>rps := Some 600\<rparr>"
proof -
  have d: "decimal 600 = js ''600''"
    by (simp add: decimal.simps js_def)
  have "(600::nat) < 2 ^ 53" by simp
  then have "parseLimits (Some (decimal 600)) = noLimits\<lparr>rps := Some (int 600)\<rparr>"
    using bare_number_is_per_second_bound [of 600] by blast
  with d show ?thesis by simp
qed

text \<open>
  Claim C6 as stated fails for a digit string with leading zeros: \<open>"007"\<close> is not what
  \<open>String(7)\<close> gives, so it is not taken as a bare number, and it sets no bound.
\<close>

theorem leading_zero_literal_counterexample:
  "parseLimits (Some (js ''007'')) = noLimits
   \<and> parseLimits (Some (js ''007'')) \<noteq> noLimits\<lparr>rps := Some 7\<rparr>"
  by (simp add: parse_eval)


lemma unitKeys_distinct:
  "js ''rps'' \<noteq> js ''rpm''" "js ''rps'' \<noteq> js ''rph''" "js ''rps'' \<noteq> js ''rpd''"
  "js ''rpm'' \<noteq> js ''rph''" "js ''rpm'' \<noteq> js ''rpd''" "js ''rph'' \<noteq> js ''rpd''"
  by (simp_all add: js_def)

lemma getLimit_setLimit:
  "k \<in> set unitKeys \<Longrightarrow>
   getLimit key (setLimit k v l) = (if key = k then Some v else getLimit key l)"
  using unitKeys_distinct
  by (auto simp: getLimit_def setLimit_def unitKeys_def)

lemma parsePart_cases:
  "parsePart l part =
     (case partKey part of
        None \<Rightarrow> l
      | Some k \<Rightarrow>
          (case partValue part of
             NaN \<Rightarrow> l
           | Num v \<Rightarrow> if k \<in> set unitKeys then setLimit k v l else l))"
  by (simp add: parsePart_def partKey_def partValue_def Let_def split: option.splits jsnum.splits)

lemma parsePart_ignored:
  assumes "\<forall>key\<in>set unitKeys. partBound key part = None"
  shows "parsePart l part = l"
proof (cases "partKey part")
  case None
  then show ?thesis by (simp add: parsePart_cases)
next
  case (Some k)
  show ?thesis
  proof (cases "partValue part")
    case NaN
    with Some show ?thesis by (simp add: parsePart_cases)
  next
    case (Num v)
    have "k \<notin> set unitKeys"
    proof
      assume "k \<in> set unitKeys"
      with assms have "partBound k part = None" by simp
      with \<open>k \<in> set unitKeys\<close> Some Num show False by (simp add: partBound_def)
    qed
    with Some Num show ?thesis by (simp add: parsePart_cases)
  qed
qed

lemma getLimit_parsePart:
  "getLimit key (parsePart l part) =
     (case partBound key part of Some v \<Rightarrow> Some v | None \<Rightarrow> getLimit key l)"
proof (cases "partKey part")
  case None
  then show ?thesis by (simp add: parsePart_cases partBound_def)
next
  case (Some k)
  show ?thesis
  proof (cases "partValue part")
    case NaN
    with Some show ?thesis by (simp add: parsePart_cases partBound_def)
  next
    case (Num v)
    show ?thesis
    proof (cases "k \<in> set unitKeys")
      case True
      with Some Num show ?thesis
        by (auto simp: parsePart_cases partBound_def getLimit_setLimit)
    next
      case False
      with Some Num show ?thesis
        by (auto simp: parsePart_cases partBound_def)
    qed
  qed
qed

lemma getLimit_foldl_none:
  "\<forall>q\<in>set qs. partBound key q = None \<Longrightarrow>
   getLimit key (foldl parsePart l qs) = getLimit key l"
  by (induction qs arbitrary: l) (simp_all add: getLimit_parsePart)

lemma getLimit_last_wins:
  assumes "partBound key p = Some v" and "\<forall>q\<in>set qs. partBound key q = None"
  shows "getLimit key (foldl parsePart l (ps @ p # qs)) = Some v"
  using assms by (simp add: getLimit_foldl_none getLimit_parsePart)

lemma parseLimits_not_plain:
  assumes "s \<noteq> []" and "\<not> isPlainNumber s"
  shows "parseLimits (Some s) = foldl parsePart noLimits (split_on comma s)"
  using assms by (cases "parseInt s") (auto simp: parseLimits_def isPlainNumber_def)

lemma split_on_nonempty: "split_on sep xs \<noteq> []"
  by (induction xs) (auto split: list.splits)

lemma split_on_head: "\<exists>rest. split_on sep xs = takeWhile (\<lambda>c. c \<noteq> sep) xs # rest"
proof (induction xs)
  case Nil
  then show ?case by simp
next
  case (Cons c cs)
  then obtain rest where "split_on sep cs = takeWhile (\<lambda>c. c \<noteq> sep) cs # rest" by blast
  then show ?case by simp
qed

lemma split_on_prefix:
  "sep \<notin> set k \<Longrightarrow> split_on sep (k @ sep # xs) = k # split_on sep xs"
proof (induction k)
  case Nil
  then show ?case by simp
next
  case (Cons c cs)
  then show ?case by auto
qed

lemma part_fields:
  assumes "colon \<notin> set k"
  shows "partKey (k @ colon # xs) = Some k"
    and "element (split_on colon (k @ colon # xs)) 1 = Some (takeWhile (\<lambda>c. c \<noteq> colon) xs)"
proof -
  obtain rest where r: "split_on colon xs = takeWhile (\<lambda>c. c \<noteq> colon) xs # rest"
    using split_on_head by blast
  have s: "split_on colon (k @ colon # xs) = k # takeWhile (\<lambda>c. c \<noteq> colon) xs # rest"
    using assms r by (simp add: split_on_prefix)
  show "partKey (k @ colon # xs) = Some k"
    by (simp add: partKey_def s element_def)
  show "element (split_on colon (k @ colon # xs)) 1 = Some (takeWhile (\<lambda>c. c \<noteq> colon) xs)"
    by (simp add: s element_def)
qed

lemma unitKeys_no_colon: "key \<in> set unitKeys \<Longrightarrow> colon \<notin> set key"
  by (auto simp: unitKeys_def js_def colon_def)

lemma space_not_colon: "isStrWhiteSpace c \<Longrightarrow> c \<noteq> colon"
  by (auto simp: isStrWhiteSpace_def colon_def)

lemma digit_not_colon: "isDigit c \<Longrightarrow> c \<noteq> colon"
  by (auto simp: isDigit_def colon_def)

lemma sign_not_space: "\<not> isStrWhiteSpace plus_sign" "\<not> isStrWhiteSpace minus_sign"
  by (simp_all add: isStrWhiteSpace_def plus_sign_def minus_sign_def)

lemma sign_not_digit: "\<not> isDigit plus_sign" "\<not> isDigit minus_sign"
  by (simp_all add: isDigit_def plus_sign_def minus_sign_def)

lemma sign_distinct: "plus_sign \<noteq> minus_sign" "plus_sign \<noteq> colon" "minus_sign \<noteq> colon"
  by (simp_all add: plus_sign_def minus_sign_def colon_def)

lemma takeWhile_digits:
  assumes "\<forall>c\<in>set ds. isDigit c" and "r = [] \<or> \<not> isDigit (hd r)"
  shows "takeWhile isDigit (ds @ r) = ds"
proof -
  have "takeWhile isDigit r = []"
    using assms(2) by (cases r) auto
  with assms(1) show ?thesis by simp
qed

lemma parseInt_shape:
  assumes ws: "\<forall>c\<in>set ws. isStrWhiteSpace c"
    and sg: "sg \<in> {[], [plus_sign], [minus_sign]}"
    and ds: "ds \<noteq> []" "\<forall>c\<in>set ds. isDigit c"
    and r: "r = [] \<or> \<not> isDigit (hd r)"
  shows "parseInt (ws @ sg @ ds @ r)
           = Num ((if sg = [minus_sign] then - 1 else 1) * digitsValue ds)"
proof -
  from ds obtain d ds' where dd: "ds = d # ds'" by (cases ds) auto
  with ds(2) have d: "isDigit d" by simp
  have nd: "\<not> isStrWhiteSpace d" "d \<noteq> plus_sign" "d \<noteq> minus_sign"
    using digit_not_space_or_sign [OF d] by simp_all
  have first: "sg @ ds @ r \<noteq> [] \<and> \<not> isStrWhiteSpace (hd (sg @ ds @ r))"
    using sg dd nd sign_not_space by auto
  have drop: "dropWhile isStrWhiteSpace (ws @ sg @ ds @ r) = sg @ ds @ r"
  proof -
    have "dropWhile isStrWhiteSpace (ws @ sg @ ds @ r) = dropWhile isStrWhiteSpace (sg @ ds @ r)"
      using ws by simp
    also have "\<dots> = sg @ ds @ r"
      using first by (cases "sg @ ds @ r") auto
    finally show ?thesis .
  qed
  have tk: "takeWhile isDigit (ds @ r) = ds"
    using ds(2) r by (rule takeWhile_digits)
  from sg consider "sg = []" | "sg = [plus_sign]" | "sg = [minus_sign]" by auto
  then show ?thesis
  proof cases
    case 1
    have "parseInt (ws @ sg @ ds @ r) = Num (digitsValue ds)"
      unfolding parseInt_def drop Let_def using 1 dd nd tk ds(1) by simp
    with 1 show ?thesis by simp
  next
    case 2
    have "parseInt (ws @ sg @ ds @ r) = Num (digitsValue ds)"
      unfolding parseInt_def drop Let_def using 2 tk ds(1) sign_distinct by simp
    with 2 sign_distinct show ?thesis by simp
  next
    case 3
    have "parseInt (ws @ sg @ ds @ r) = Num (- digitsValue ds)"
      unfolding parseInt_def drop Let_def using 3 tk ds(1) by simp
    with 3 show ?thesis by simp
  qed
qed

lemma partBound_shape:
  assumes key: "key \<in> set unitKeys"
    and ws: "\<forall>c\<in>set ws. isStrWhiteSpace c"
    and sg: "sg \<in> {[], [plus_sign], [minus_sign]}"
    and ds: "ds \<noteq> []" "\<forall>c\<in>set ds. isDigit c"
    and r: "r = [] \<or> \<not> isDigit (hd r)"
  shows "partBound key (key @ colon # ws @ sg @ ds @ r)
           = Some ((if sg = [minus_sign] then - 1 else 1) * digitsValue ds)"
proof -
  have nc: "colon \<notin> set key" using key by (rule unitKeys_no_colon)
  let ?r' = "takeWhile (\<lambda>c. c \<noteq> colon) r"
  have pre: "\<forall>c\<in>set (ws @ sg @ ds). c \<noteq> colon"
    using ws sg ds(2) space_not_colon digit_not_colon sign_distinct by auto
  have field: "takeWhile (\<lambda>c. c \<noteq> colon) (ws @ sg @ ds @ r) = ws @ sg @ ds @ ?r'"
  proof -
    have "takeWhile (\<lambda>c. c \<noteq> colon) ((ws @ sg @ ds) @ r) = (ws @ sg @ ds) @ ?r'"
      using pre by (intro takeWhile_append2) blast
    then show ?thesis by simp
  qed
  have r': "?r' = [] \<or> \<not> isDigit (hd ?r')"
    using r by (cases r) auto
  have "partValue (key @ colon # ws @ sg @ ds @ r) = parseInt (ws @ sg @ ds @ ?r')"
    using part_fields(2) [OF nc, of "ws @ sg @ ds @ r"] field
    by (simp add: partValue_def ToString_def)
  also have "\<dots> = Num ((if sg = [minus_sign] then - 1 else 1) * digitsValue ds)"
    using ws sg ds r' by (rule parseInt_shape)
  finally have v: "partValue (key @ colon # ws @ sg @ ds @ r)
           = Num ((if sg = [minus_sign] then - 1 else 1) * digitsValue ds)" .
  show ?thesis
    using key part_fields(1) [OF nc, of "ws @ sg @ ds @ r"] v
    by (simp add: partBound_def)
qed

text \<open>
  Claim C7, as the code has it. \<open>parseLimits\<close> is a total function. On a string that is
  not a bare number it folds \<open>parsePart\<close> over the comma-separated parts. A part changes
  nothing, and the result is the same as without it, unless its text before the first
  colon is one of \<open>rps\<close>, \<open>rpm\<close>, \<open>rph\<close>, \<open>rpd\<close> and \<open>parseInt\<close> reads a number from its
  second field. A part made of a unit, a colon, white space, an optional sign, digits and
  anything that does not go on with a digit sets the bound of its unit to the number the
  digits write, negated after a minus sign, for numbers below \<open>2 ^ 53\<close>, where a Number
  is the integer itself. Among several parts for one unit the last one decides, and a
  unit that no part sets keeps the bound it had.
\<close>

theorem segments_are_read_by_parseInt:
  "((\<forall>key\<in>set unitKeys. partBound key part = None) \<longrightarrow>
        parsePart l part = l \<and>
        foldl parsePart l (ps @ part # qs) = foldl parsePart l (ps @ qs))
   \<and> (key \<in> set unitKeys \<and> (\<forall>c\<in>set ws. isStrWhiteSpace c) \<and>
      sg \<in> {[], [plus_sign], [minus_sign]} \<and> ds \<noteq> [] \<and> (\<forall>c\<in>set ds. isDigit c) \<and>
      (rest = [] \<or> \<not> isDigit (hd rest)) \<and> digitsValue ds < 2 ^ 53 \<longrightarrow>
        partBound key (key @ colon # ws @ sg @ ds @ rest)
          = Some ((if sg = [minus_sign] then - 1 else 1) * digitsValue ds))
   \<and> (partBound key p = Some v \<and> \<bar>v\<bar> < 2 ^ 53 \<and>
      (\<forall>q\<in>set qs. partBound key q = None) \<longrightarrow>
        getLimit key (foldl parsePart l (ps @ p # qs)) = Some v)
   \<and> ((\<forall>q\<in>set qs. partBound key q = None) \<longrightarrow>
        getLimit key (foldl parsePart l qs) = getLimit key l)
   \<and> (s \<noteq> [] \<and> \<not> isPlainNumber s \<longrightarrow>
        parseLimits (Some s) = foldl parsePart noLimits (split_on comma s))"
proof (intro conjI impI)
  {
    assume ignored: "\<forall>key\<in>set unitKeys. partBound key part = None"
    then show "parsePart l part = l"
      by (rule parsePart_ignored)
    from ignored have "parsePart (foldl parsePart l ps) part = foldl parsePart l ps"
      by (rule parsePart_ignored)
    then show "foldl parsePart l (ps @ part # qs) = foldl parsePart l (ps @ qs)"
      by simp
  }
  {
    assume "key \<in> set unitKeys \<and> (\<forall>c\<in>set ws. isStrWhiteSpace c) \<and>
      sg \<in> {[], [plus_sign], [minus_sign]} \<and> ds \<noteq> [] \<and> (\<forall>c\<in>set ds. isDigit c) \<and>
      (rest = [] \<or> \<not> isDigit (hd rest)) \<and> digitsValue ds < 2 ^ 53"
    then have "key \<in> set unitKeys" and "\<forall>c\<in>set ws. isStrWhiteSpace c"
      and "sg \<in> {[], [plus_sign], [minus_sign]}" and "ds \<noteq> []"
      and "\<forall>c\<in>set ds. isDigit c" and "rest = [] \<or> \<not> isDigit (hd rest)"
      by simp_all
    then show "partBound key (key @ colon # ws @ sg @ ds @ rest)
          = Some ((if sg = [minus_sign] then - 1 else 1) * digitsValue ds)"
      by (rule partBound_shape)
  }
  {
    assume "partBound key p = Some v \<and> \<bar>v\<bar> < 2 ^ 53 \<and>
      (\<forall>q\<in>set qs. partBound key q = None)"
    then have "partBound key p = Some v" and "\<forall>q\<in>set qs. partBound key q = None"
      by simp_all
    then show "getLimit key (foldl parsePart l (ps @ p # qs)) = Some v"
      by (rule getLimit_last_wins)
  }
  {
    assume "\<forall>q\<in>set qs. partBound key q = None"
    then show "getLimit key (foldl parsePart l qs) = getLimit key l"
      by (rule getLimit_foldl_none)
  }
  {
    assume "s \<noteq> [] \<and> \<not> isPlainNumber s"
    then show "parseLimits (Some s) = foldl parsePart noLimits (split_on comma s)"
      by (simp add: parseLimits_not_plain)
  }
qed

lemmas part_eval =
  partBound_def partKey_def partValue_def parseInt_def js_def element_def ToString_def
  colon_def plus_sign_def minus_sign_def isDigit_def digitValue_def digitsValue_def
  isStrWhiteSpace_def unitKeys_def

theorem segments_are_read_by_parseInt_witness:
  "parsePart (noLimits\<lparr>rps := Some 1\<rparr>) (js ''zzz:3'') = noLimits\<lparr>rps := Some 1\<rparr>
   \<and> partBound (js ''rps'') (js ''rps: -5x'') = Some (- 5)
   \<and> getLimit (js ''rps'')
        (foldl parsePart noLimits [js ''rps:1'', js ''zzz:3'', js ''rps:2'', js ''rpm:'']) = Some 2
   \<and> getLimit (js ''rpm'')
        (foldl parsePart noLimits [js ''rps:1'', js ''zzz:3'', js ''rps:2'', js ''rpm:'']) = None
   \<and> parseLimits (Some (js ''rps:1,zzz:3,rps:2,rpm:''))
        = foldl parsePart noLimits [js ''rps:1'', js ''zzz:3'', js ''rps:2'', js ''rpm:'']"
proof -
  have none: "\<forall>key\<in>set unitKeys. partBound key (js ''zzz:3'') = None"
    by (simp add: part_eval)
  have a: "parsePart (noLimits\<lparr>rps := Some 1\<rparr>) (js ''zzz:3'') = noLimits\<lparr>rps := Some 1\<rparr>"
    using segments_are_read_by_parseInt
            [where part = "js ''zzz:3''" and l = "noLimits\<lparr>rps := Some 1\<rparr>"] none
    by blast
  have shape: "js ''rps'' \<in> set unitKeys \<and> (\<forall>c\<in>set (js '' ''). isStrWhiteSpace c) \<and>
      [minus_sign] \<in> {[], [plus_sign], [minus_sign]} \<and> js ''5'' \<noteq> [] \<and>
      (\<forall>c\<in>set (js ''5''). isDigit c) \<and> (js ''x'' = [] \<or> \<not> isDigit (hd (js ''x''))) \<and>
      digitsValue (js ''5'') < 2 ^ 53"
    by (simp add: unitKeys_def js_def isStrWhiteSpace_def isDigit_def digitsValue_def
          digitValue_def)
  have joined: "js ''rps'' @ colon # js '' '' @ minus_sign # js ''5'' @ js ''x'' = js ''rps: -5x''"
    by (simp add: js_def colon_def minus_sign_def)
  have five: "digitsValue (js ''5'') = 5"
    by (simp add: js_def digitsValue_def digitValue_def)
  have "partBound (js ''rps'') (js ''rps'' @ colon # js '' '' @ [minus_sign] @ js ''5'' @ js ''x'')
          = Some ((if [minus_sign] = [minus_sign] then - 1 else 1) * digitsValue (js ''5''))"
    using segments_are_read_by_parseInt
            [where key = "js ''rps''" and ws = "js '' ''" and sg = "[minus_sign]"
               and ds = "js ''5''" and rest = "js ''x''"]
          shape by blast
  then have n: "partBound (js ''rps'') (js ''rps: -5x'') = Some (- 5)"
    by (simp add: joined five)
  have p: "partBound (js ''rps'') (js ''rps:2'') = Some 2"
    by (simp add: part_eval)
  have small: "\<bar>2::int\<bar> < 2 ^ 53"
    by simp
  have q: "\<forall>q\<in>set [js ''rpm:'']. partBound (js ''rps'') q = None"
    by (simp add: part_eval)
  have b: "getLimit (js ''rps'')
        (foldl parsePart noLimits ([js ''rps:1'', js ''zzz:3''] @ js ''rps:2'' # [js ''rpm:''])) = Some 2"
    using segments_are_read_by_parseInt
            [where key = "js ''rps''" and p = "js ''rps:2''" and v = 2 and qs = "[js ''rpm:'']"
               and l = noLimits and ps = "[js ''rps:1'', js ''zzz:3'']"]
          p small q by blast
  have r: "\<forall>q\<in>set [js ''rps:1'', js ''zzz:3'', js ''rps:2'', js ''rpm:''].
             partBound (js ''rpm'') q = None"
    by (simp add: part_eval)
  have c: "getLimit (js ''rpm'')
        (foldl parsePart noLimits [js ''rps:1'', js ''zzz:3'', js ''rps:2'', js ''rpm:''])
          = getLimit (js ''rpm'') noLimits"
    using segments_are_read_by_parseInt
            [where key = "js ''rpm''" and l = noLimits
               and qs = "[js ''rps:1'', js ''zzz:3'', js ''rps:2'', js ''rpm:'']"]
          r by blast
  have np: "js ''rps:1,zzz:3,rps:2,rpm:'' \<noteq> [] \<and> \<not> isPlainNumber (js ''rps:1,zzz:3,rps:2,rpm:'')"
    by (simp add: isPlainNumber_def parseInt_def js_def isStrWhiteSpace_def isDigit_def
          plus_sign_def minus_sign_def)
  have sp: "split_on comma (js ''rps:1,zzz:3,rps:2,rpm:'')
              = [js ''rps:1'', js ''zzz:3'', js ''rps:2'', js ''rpm:'']"
    by (simp add: js_def comma_def)
  have d: "parseLimits (Some (js ''rps:1,zzz:3,rps:2,rpm:''))
        = foldl parsePart noLimits [js ''rps:1'', js ''zzz:3'', js ''rps:2'', js ''rpm:'']"
    using segments_are_read_by_parseInt [where s = "js ''rps:1,zzz:3,rps:2,rpm:''"] np sp
    by simp
  have e: "getLimit (js ''rpm'') noLimits = None"
    by (simp add: getLimit_def noLimits_def)
  from a n b c d e show ?thesis by simp
qed

text \<open>
  Claim C7 as stated fails: the parts \<open>rps:5x\<close> and \<open>rps:-5\<close> do not have a non-negative
  integer as their value, yet they set the bounds 5 and -5.
\<close>

theorem malformed_segment_counterexample:
  "parseLimits (Some (js ''rps:5x'')) = noLimits\<lparr>rps := Some 5\<rparr>
   \<and> parseLimits (Some (js ''rps:-5'')) = noLimits\<lparr>rps := Some (- 5)\<rparr>
   \<and> parseLimits (Some (js ''rps:5x'')) \<noteq> noLimits"
  by (simp add: parse_eval)

section \<open>Properties of the handlers\<close>

lemma callFailFn_response:
  "callFailFn co fn msg = Responded r \<Longrightarrow>
   contentType r = Some (mimeOf fn) \<and> errorHeader r = Some (sanitizeErrorHeader msg)
   \<and> status r = 500"
  by (cases fn)
     (auto simp: callFailFn_def failPng_def failSvg_def failPdf_def mimeOf_def
           split: outcome.splits)

lemma onRenderHandler_response:
  "onRenderHandler co fn buf = Responded r \<Longrightarrow>
   contentType r = Some (mimeOf fn) \<and>
   (status r \<noteq> 200 \<longrightarrow> (\<exists>m. errorHeader r = Some (sanitizeErrorHeader m)))"
  by (cases fn)
     (auto simp: onRenderHandler_def rendered_def mimeOf_def callFailFn_def failPdf_def
           split: outcome.splits)

lemma doChartjsRender_response:
  assumes "doChartjsRender co fn q = Responded r"
  shows "contentType r = Some (mimeOf fn) \<and>
         (status r \<noteq> 200 \<longrightarrow> (\<exists>m. errorHeader r = Some (sanitizeErrorHeader m)))"
proof -
  from assms consider
      m where "callFailFn co fn m = Responded r"
    | buf where "onRenderHandler co fn buf = Responded r"
    by (auto simp: doChartjsRender_def Let_def split: if_splits outcome.splits)
  then show ?thesis
  proof cases
    case 1
    then show ?thesis using callFailFn_response [of co fn m r] by blast
  next
    case 2
    then show ?thesis by (rule onRenderHandler_response)
  qed
qed

lemma chartGet_response:
  assumes "\<not> truthy (chtParam q)" and "outputFormat q = Some fmt"
    and "fmt \<in> {js ''png'', js ''svg'', js ''pdf''}" and "chartGet co q = Responded r"
  shows "contentType r = Some (mimeOf (chartFailFn fmt))"
proof -
  have d: "js ''svg'' \<noteq> js ''pdf''" "js ''png'' \<noteq> js ''pdf''" "js ''png'' \<noteq> js ''svg''"
    by (simp_all add: js_def)
  from assms have "doChartjsRender co (chartFailFn fmt) q = Responded r"
    using d by (auto simp: chartGet_def chartFailFn_def split: if_splits)
  then show ?thesis using doChartjsRender_response by blast
qed

lemma chartPost_response:
  assumes "outputFormat q = Some fmt" and "chartPost co q = Responded r"
  shows "contentType r = Some (mimeOf (chartFailFn fmt))"
proof -
  from assms have "doChartjsRender co (chartFailFn fmt) q = Responded r"
    by (auto simp: chartPost_def chartFailFn_def split: if_splits)
  then show ?thesis using doChartjsRender_response by blast
qed

text \<open>
  Claim C9 fails on the code. The handler of \<open>/qr\<close> resolves the format \<open>svg\<close> and
  answers a successful render as \<open>image/svg+xml\<close>, but it answers both of its failures,
  the missing \<open>text\<close> and a rejected render, with \<open>failPng\<close>: an \<open>image/png\<close> response to
  an SVG request. \<open>handleGraphviz\<close> chooses \<open>failSvg\<close> for the same failure.
\<close>

theorem qr_failures_ignore_format:
  "qr co (q\<lparr>textParam := Undefined, formatParam := Str (js ''svg'')\<rparr>)
     = Responded (failPng (Str (js ''You are missing variable `text`'')) 500)
   \<and> qr (co\<lparr>renderQr := Fails err\<rparr>)
        (q\<lparr>textParam := Str (js ''hello''), formatParam := Str (js ''svg'')\<rparr>)
       = Responded (failPng err 500)
   \<and> contentType (failPng err 500) = Some ''image/png''
   \<and> qr (co\<lparr>renderQr := Returns buf\<rparr>)
        (q\<lparr>textParam := Str (js ''hello''), formatParam := Str (js ''svg'')\<rparr>)
       = Responded (rendered ''image/svg+xml'' buf)
   \<and> handleGraphviz (co\<lparr>renderGraphviz := Fails err\<rparr>) (Str (js ''svg''))
       = Responded (failSvg (Str (js ''Graph Error: '' @ toText err)) 500)"
proof -
  have hello: "truthy (Str (js ''hello''))"
    by (simp add: truthy_def js_def)
  have differ: "js ''svg'' \<noteq> js ''png''"
    by (simp add: js_def)
  have a: "qr co (q\<lparr>textParam := Undefined, formatParam := Str (js ''svg'')\<rparr>)
     = Responded (failPng (Str (js ''You are missing variable `text`'')) 500)"
    by (simp add: qr_def truthy_def)
  have b: "qr (co\<lparr>renderQr := Fails err\<rparr>)
        (q\<lparr>textParam := Str (js ''hello''), formatParam := Str (js ''svg'')\<rparr>)
       = Responded (failPng err 500)"
    using hello by (simp add: qr_def)
  have c: "contentType (failPng err 500) = Some ''image/png''"
    by (simp add: failPng_def)
  have d: "qr (co\<lparr>renderQr := Returns buf\<rparr>)
        (q\<lparr>textParam := Str (js ''hello''), formatParam := Str (js ''svg'')\<rparr>)
       = Responded (rendered ''image/svg+xml'' buf)"
    using hello differ by (simp add: qr_def)
  have e: "handleGraphviz (co\<lparr>renderGraphviz := Fails err\<rparr>) (Str (js ''svg''))
       = Responded (failSvg (Str (js ''Graph Error: '' @ toText err)) 500)"
    using differ by (simp add: handleGraphviz_def)
  from a b c d e show ?thesis by simp
qed

text \<open>
  Claim C8 fails on the code. In \<open>handleGChart\<close> a request without \<open>cht\<close>, and a \<open>qr\<close>
  request without \<open>chs\<close>, raise a type error that nothing in the handler catches, also
  behind the middleware for an admitted anonymous request on \<open>/gchart\<close>; and a rejection
  of the legacy chart render has no handler, so no response is written.
\<close>

theorem legacy_chart_exceptions_escape:
  "handleGChart co (q\<lparr>chtParam := Undefined\<rparr>) = Escaped
   \<and> handleGChart co (q\<lparr>chtParam := Str (js ''qr''), chsParam := Undefined\<rparr>) = Escaped
   \<and> handleGChart (co\<lparr>toChartJs := Returns conv, renderChartJs := Fails err\<rparr>)
        (q\<lparr>chtParam := Str (js ''bvs''), formatParam := Undefined\<rparr>) = Unhandled
   \<and> fst (protected exampleKeys co GChart anonymousRequest (q\<lparr>chtParam := Undefined\<rparr>) now rc)
       = Escaped"
proof -
  have a: "handleGChart co (q\<lparr>chtParam := Undefined\<rparr>) = Escaped"
    by (simp add: handleGChart_def)
  have b: "handleGChart co (q\<lparr>chtParam := Str (js ''qr''), chsParam := Undefined\<rparr>) = Escaped"
    by (simp add: handleGChart_def startsWith_def js_def)
  have c: "handleGChart (co\<lparr>toChartJs := Returns conv, renderChartJs := Fails err\<rparr>)
        (q\<lparr>chtParam := Str (js ''bvs''), formatParam := Undefined\<rparr>) = Unhandled"
    by (simp add: handleGChart_def startsWith_def js_def)
  have key: "requestKey anonymousRequest = Str (js ''_anonymous_'')"
    by (simp add: requestKey_def anonymousRequest_def startsWith_def truthy_def js_def)
  have "getLimits exampleKeys (requestKey anonymousRequest) = Some (js ''_anonymous_'', noLimits)"
    by (simp add: key getLimits_def exampleKeys_def)
  then have "fst (authAndRateLimit exampleKeys anonymousRequest now rc) = Next"
    by (simp add: gate_known checkAll_def noLimits_def check_None)
  then have d: "fst (protected exampleKeys co GChart anonymousRequest (q\<lparr>chtParam := Undefined\<rparr>) now rc)
       = Escaped"
    by (cases "authAndRateLimit exampleKeys anonymousRequest now rc")
       (simp add: protected_def handler_def a)
  from a b c d show ?thesis by simp
qed

end
